theory Spec2Isabelle
  imports Complex_Main "HOL-Library.Log_Nat"
begin

section \<open>Python values and the builtins used by the providers\<close>

subsection \<open>Floats\<close>

text \<open>
  A Python float is an IEEE 754 binary64 value. \<open>Finite q\<close> is the double whose exact
  value is the rational \<open>q\<close> (\<open>Finite 0\<close> is \<open>+0.0\<close>), \<open>NegZero\<close> is \<open>-0.0\<close>,
  \<open>Infinity s\<close> is the infinity of sign \<open>s\<close> (\<open>True\<close> for negative).
\<close>

datatype float64 = Finite rat | NegZero | Infinity bool | NaN

definition pow2 :: "int \<Rightarrow> rat" where
  "pow2 k = (if 0 \<le> k then 2 ^ nat k else 1 / 2 ^ nat (- k))"

text \<open>\<open>ilog2 a\<close> is the exponent \<open>e\<close> with \<open>2^e \<le> a < 2^(e+1)\<close>, for \<open>a > 0\<close>.\<close>

definition ilog2 :: "rat \<Rightarrow> int" where
  "ilog2 a = (let (n, d) = quotient_of a; k = bitlen n - bitlen d
              in if pow2 k \<le> a then k else k - 1)"

definition round_half_even :: "rat \<Rightarrow> int" where
  "round_half_even x = (let f = \<lfloor>x\<rfloor>; r = x - of_int f
     in if r < 1 / 2 then f else if 1 / 2 < r then f + 1
        else if even f then f else f + 1)"

text \<open>
  Rounding of an exact value to the nearest double, ties to even: 53 bits of
  mantissa, subnormals below \<open>2^-1022\<close>, infinity from \<open>2^1024\<close> on, and a zero
  that keeps the sign of a value that underflows.
\<close>

definition round64 :: "rat \<Rightarrow> float64" where
  "round64 q = (if q = 0 then Finite 0 else
     let a = \<bar>q\<bar>; e = max (ilog2 a) (- 1022); ulp = pow2 (e - 52);
         m = round_half_even (a / ulp); r = of_int m * ulp
     in if m = 0 then (if q < 0 then NegZero else Finite 0)
        else if pow2 1024 \<le> r then Infinity (q < 0)
        else Finite (if q < 0 then - r else r))"

text \<open>Python's \<open>x + y\<close> on two floats.\<close>

fun float_add :: "float64 \<Rightarrow> float64 \<Rightarrow> float64" where
  "float_add NaN y = NaN"
| "float_add x NaN = NaN"
| "float_add (Infinity s) (Infinity t) = (if s = t then Infinity s else NaN)"
| "float_add (Infinity s) y = Infinity s"
| "float_add x (Infinity t) = Infinity t"
| "float_add NegZero NegZero = NegZero"
| "float_add NegZero (Finite b) = Finite b"
| "float_add (Finite a) NegZero = Finite a"
| "float_add (Finite a) (Finite b) = round64 (a + b)"

subsection \<open>Errors and values\<close>

text \<open>
  The exceptions that can leave \<open>get_rate\<close>. \<open>RateNotFound\<close> is the repository's
  own class and carries its message; \<open>KeyError\<close> carries the missing key;
  \<open>HTTPError\<close> is raised by \<open>raise_for_status\<close> and carries the status code;
  \<open>RequestException\<close> stands for whatever \<open>requests.get\<close> itself raises
  (connection failure, timeout, ...), identified by a text.
\<close>

datatype error =
    RateNotFound string
  | KeyError string
  | TypeError
  | ValueError
  | AttributeError
  | OverflowError
  | HTTPError int
  | RequestException string
  | JSONDecodeError

text \<open>
  What \<open>response.json()\<close> can return: \<open>None\<close>, a bool, an int, a float, a str,
  a list, or a dict with str keys (its items in insertion order, keys distinct;
  lookup is \<open>map_of\<close>).
\<close>

datatype pyval =
    PNone
  | PBool bool
  | PInt int
  | PFloat float64
  | PStr string
  | PList "pyval list"
  | PDict "(string \<times> pyval) list"

text \<open>Sequencing of computations that may raise: the first exception wins.\<close>

definition bindE :: "error + 'a \<Rightarrow> ('a \<Rightarrow> error + 'b) \<Rightarrow> error + 'b" where
  "bindE m f = (case m of Inl e \<Rightarrow> Inl e | Inr x \<Rightarrow> f x)"

subsection \<open>The builtin \<open>float\<close>\<close>

definition is_space :: "char \<Rightarrow> bool" where
  "is_space c = (c \<in> set [CHR '' '', CHR 0x09, CHR 0x0A, CHR 0x0B, CHR 0x0C, CHR 0x0D])"

definition is_digit :: "char \<Rightarrow> bool" where
  "is_digit c = (48 \<le> (of_char c :: nat) \<and> (of_char c :: nat) \<le> 57)"

definition lower :: "char \<Rightarrow> char" where
  "lower c = (if 65 \<le> (of_char c :: nat) \<and> (of_char c :: nat) \<le> 90
              then char_of ((of_char c :: nat) + 32) else c)"

text \<open>
  Underscores are allowed between two digits only and are dropped; the first
  argument is the previous character (NUL at the start).
\<close>

fun strip_underscores :: "char \<Rightarrow> string \<Rightarrow> string option" where
  "strip_underscores prev [] = (if prev = CHR ''_'' then None else Some [])"
| "strip_underscores prev (c # cs) =
     (if c = CHR ''_'' then (if is_digit prev then strip_underscores c cs else None)
      else if prev = CHR ''_'' \<and> \<not> is_digit c then None
      else map_option ((#) c) (strip_underscores c cs))"

definition strip :: "string \<Rightarrow> string" where
  "strip s = rev (dropWhile is_space (rev (dropWhile is_space s)))"

definition digits_val :: "string \<Rightarrow> int" where
  "digits_val ds = foldl (\<lambda>a c. 10 * a + ((of_char c :: int) - 48)) 0 ds"

text \<open>
  The exponent part of a decimal literal: nothing, or \<open>e\<close>/\<open>E\<close>, an optional sign
  and at least one digit, up to the end of the text.
\<close>

definition parse_exponent :: "string \<Rightarrow> int option" where
  "parse_exponent s = (case s of
       [] \<Rightarrow> Some 0
     | c # t \<Rightarrow>
         if c = CHR ''e'' \<or> c = CHR ''E'' then
           (let (neg, ds) = (case t of
                  [] \<Rightarrow> (False, [])
                | d # r \<Rightarrow> if d = CHR ''-'' then (True, r)
                           else if d = CHR ''+'' then (False, r) else (False, t))
            in if ds \<noteq> [] \<and> list_all is_digit ds
               then Some (if neg then - digits_val ds else digits_val ds)
               else None)
         else None)"

text \<open>
  An unsigned decimal literal: digits, an optional point with digits, at least one
  digit in all, then the exponent part. The result is its exact value.
\<close>

definition parse_decimal :: "string \<Rightarrow> rat option" where
  "parse_decimal s =
     (let ip = takeWhile is_digit s; r1 = dropWhile is_digit s;
          (fp, r2) = (case r1 of
               [] \<Rightarrow> ([], r1)
             | c # t \<Rightarrow> if c = CHR ''.'' then (takeWhile is_digit t, dropWhile is_digit t)
                        else ([], r1))
      in if ip = [] \<and> fp = [] then None
         else (case parse_exponent r2 of
                 None \<Rightarrow> None
               | Some ex \<Rightarrow>
                   Some (of_int (digits_val (ip @ fp)) *
                         (if 0 \<le> ex + - int (length fp)
                          then 10 ^ nat (ex - int (length fp))
                          else 1 / 10 ^ nat (int (length fp) - ex)))))"

text \<open>
  \<open>float(s)\<close> for a str of ASCII characters: underscores are checked and dropped,
  surrounding whitespace is stripped, then comes an optional sign followed by a
  decimal literal or, in any letter case, \<open>inf\<close>, \<open>infinity\<close> or \<open>nan\<close>. \<open>None\<close>
  is the \<open>ValueError\<close>. A decimal literal too large for a double gives an infinity.
\<close>

definition parse_float :: "string \<Rightarrow> float64 option" where
  "parse_float s = (case strip_underscores (CHR 0x00) s of
       None \<Rightarrow> None
     | Some t \<Rightarrow>
         (let u = strip t;
              (neg, v) = (case u of
                  [] \<Rightarrow> (False, [])
                | c # r \<Rightarrow> if c = CHR ''-'' then (True, r)
                           else if c = CHR ''+'' then (False, r) else (False, u))
          in case parse_decimal v of
               Some q \<Rightarrow>
                 Some (if q = 0 then (if neg then NegZero else Finite 0)
                       else round64 (if neg then - q else q))
             | None \<Rightarrow>
                 (let w = map lower v
                  in if w = ''inf'' \<or> w = ''infinity'' then Some (Infinity neg)
                     else if w = ''nan'' then Some NaN
                     else None)))"

text \<open>\<open>float(i)\<close> for an int: the nearest double, \<open>OverflowError\<close> beyond the range.\<close>

definition int_to_float :: "int \<Rightarrow> error + float64" where
  "int_to_float i = (case round64 (of_int i) of
       Infinity s \<Rightarrow> Inl OverflowError
     | x \<Rightarrow> Inr x)"

fun float :: "pyval \<Rightarrow> error + float64" where
  "float PNone = Inl TypeError"
| "float (PBool b) = Inr (Finite (if b then 1 else 0))"
| "float (PInt i) = int_to_float i"
| "float (PFloat x) = Inr x"
| "float (PStr s) = (case parse_float s of None \<Rightarrow> Inl ValueError | Some x \<Rightarrow> Inr x)"
| "float (PList xs) = Inl TypeError"
| "float (PDict d) = Inl TypeError"

subsection \<open>Operators, subscripts and iteration\<close>

text \<open>\<open>v + y\<close> for a float \<open>y\<close>: numbers are added as floats, anything else raises.\<close>

fun add_float :: "pyval \<Rightarrow> float64 \<Rightarrow> error + pyval" where
  "add_float PNone y = Inl TypeError"
| "add_float (PBool b) y = Inr (PFloat (float_add (Finite (if b then 1 else 0)) y))"
| "add_float (PInt i) y = bindE (int_to_float i) (\<lambda>x. Inr (PFloat (float_add x y)))"
| "add_float (PFloat x) y = Inr (PFloat (float_add x y))"
| "add_float (PStr s) y = Inl TypeError"
| "add_float (PList xs) y = Inl TypeError"
| "add_float (PDict d) y = Inl TypeError"

text \<open>\<open>v == s\<close> for a str \<open>s\<close>: only an equal str is equal to it.\<close>

fun eq_str :: "pyval \<Rightarrow> string \<Rightarrow> bool" where
  "eq_str (PStr t) s = (t = s)"
| "eq_str v s = False"

text \<open>\<open>v == n\<close> for an int \<open>n\<close>: numbers compare by exact value, \<open>True\<close> is 1.\<close>

fun eq_int :: "pyval \<Rightarrow> int \<Rightarrow> bool" where
  "eq_int (PInt i) n = (i = n)"
| "eq_int (PBool b) n = ((if b then 1 else 0) = n)"
| "eq_int (PFloat (Finite q)) n = (q = of_int n)"
| "eq_int (PFloat NegZero) n = (n = 0)"
| "eq_int v n = False"

text \<open>Truth value of an object, as tested by \<open>if x:\<close>.\<close>

fun truthy :: "pyval \<Rightarrow> bool" where
  "truthy PNone = False"
| "truthy (PBool b) = b"
| "truthy (PInt i) = (i \<noteq> 0)"
| "truthy (PFloat x) = (x \<noteq> Finite 0 \<and> x \<noteq> NegZero)"
| "truthy (PStr s) = (s \<noteq> [])"
| "truthy (PList xs) = (xs \<noteq> [])"
| "truthy (PDict d) = (d \<noteq> [])"

text \<open>\<open>v[k]\<close> for a str key \<open>k\<close>: only a dict can be subscripted by a str.\<close>

fun getitem :: "pyval \<Rightarrow> string \<Rightarrow> error + pyval" where
  "getitem (PDict d) k = (case map_of d k of None \<Rightarrow> Inl (KeyError k) | Some v \<Rightarrow> Inr v)"
| "getitem v k = Inl TypeError"

text \<open>\<open>v.get(k)\<close>: a dict answers \<open>None\<close> for a missing key; nothing else has \<open>get\<close>.\<close>

fun get :: "pyval \<Rightarrow> string \<Rightarrow> error + pyval" where
  "get (PDict d) k = Inr (case map_of d k of None \<Rightarrow> PNone | Some v \<Rightarrow> v)"
| "get v k = Inl AttributeError"

text \<open>
  The items a \<open>for\<close> loop visits: the elements of a list, the keys of a dict, the
  characters of a str.
\<close>

fun iter :: "pyval \<Rightarrow> error + pyval list" where
  "iter (PList xs) = Inr xs"
| "iter (PDict d) = Inr (map (\<lambda>kv. PStr (fst kv)) d)"
| "iter (PStr s) = Inr (map (\<lambda>c. PStr [c]) s)"
| "iter v = Inl TypeError"

text \<open>\<open>d[k]\<close> on one of the class-level tables.\<close>

definition dict_getitem :: "(string \<times> 'v) list \<Rightarrow> string \<Rightarrow> error + 'v" where
  "dict_getitem d k = (case map_of d k of None \<Rightarrow> Inl (KeyError k) | Some v \<Rightarrow> Inr v)"

subsection \<open>The HTTP library\<close>

text \<open>
  A response of the \<open>requests\<close> library: its status code and what \<open>json()\<close> yields
  when called, \<open>None\<close> for a body that does not decode. The network is a function
  from the URL to the response, or to the text of the exception that
  \<open>requests.get\<close> raises.
\<close>

record Response =
  status_code :: int
  json_body :: "pyval option"

type_synonym network = "string \<Rightarrow> string + Response"

definition requests_get :: "network \<Rightarrow> string \<Rightarrow> error + Response" where
  "requests_get net url = (case net url of
       Inl msg \<Rightarrow> Inl (RequestException msg)
     | Inr response \<Rightarrow> Inr response)"

definition raise_for_status :: "Response \<Rightarrow> error + unit" where
  "raise_for_status response =
     (if 400 \<le> status_code response \<and> status_code response < 500
        then Inl (HTTPError (status_code response))
      else if 500 \<le> status_code response \<and> status_code response < 600
        then Inl (HTTPError (status_code response))
      else Inr ())"

text \<open>\<open>Response.ok\<close>: whether \<open>raise_for_status\<close> would pass.\<close>

definition ok :: "Response \<Rightarrow> bool" where
  "ok response = (case raise_for_status response of Inl e \<Rightarrow> False | Inr u \<Rightarrow> True)"

definition Response_json :: "Response \<Rightarrow> error + pyval" where
  "Response_json response = (case json_body response of
       None \<Rightarrow> Inl JSONDecodeError
     | Some v \<Rightarrow> Inr v)"

section \<open>The providers\<close>

subsection \<open>Methods on an object\<close>

text \<open>
  A method runs on the state of its object and gives back a result or an exception,
  together with the state it leaves behind.
\<close>

type_synonym ('s, 'a) meth = "'s \<Rightarrow> (error + 'a) \<times> 's"

definition return :: "'a \<Rightarrow> ('s, 'a) meth" where
  "return x = (\<lambda>self. (Inr x, self))"

definition raise :: "error \<Rightarrow> ('s, 'a) meth" where
  "raise e = (\<lambda>self. (Inl e, self))"

definition bind :: "('s, 'a) meth \<Rightarrow> ('a \<Rightarrow> ('s, 'b) meth) \<Rightarrow> ('s, 'b) meth" where
  "bind m f = (\<lambda>self. case m self of
       (Inl e, self') \<Rightarrow> (Inl e, self')
     | (Inr x, self') \<Rightarrow> f x self')"

text \<open>Reading an attribute, \<open>self.a\<close>.\<close>

definition attr :: "('s \<Rightarrow> 'a) \<Rightarrow> ('s, 'a) meth" where
  "attr a = (\<lambda>self. (Inr (a self), self))"

text \<open>Evaluating an expression that does not touch the object.\<close>

definition expr :: "error + 'a \<Rightarrow> ('s, 'a) meth" where
  "expr r = (\<lambda>self. (r, self))"

subsection \<open>Data\<close>

record SellBuy =
  sell :: float64
  buy :: float64

text \<open>
  The state of a provider object: the two instance attributes set by \<open>__init__\<close>
  and the attributes it finds on its class, \<open>name\<close> and, for two of the classes, a
  translation table.
\<close>

record ProviderBase =
  currency_from :: string
  currency_to :: string
  name :: string

record MonoProvider = ProviderBase +
  iso_from_country_code :: "(string \<times> int) list"

record VKurseProvider = ProviderBase +
  country_code :: "(string \<times> string) list"

type_synonym PrivatbankProvider = ProviderBase

type_synonym NationalBankProvider = ProviderBase

text \<open>The class-level tables.\<close>

definition MonoProvider_iso_from_country_code :: "(string \<times> int) list" where
  "MonoProvider_iso_from_country_code = [(''UAH'', 980), (''USD'', 840), (''EUR'', 978)]"

definition VKurseProvider_country_code :: "(string \<times> string) list" where
  "VKurseProvider_country_code = [(''USD'', ''Dollar''), (''EUR'', ''Euro'')]"

text \<open>Construction: \<open>MonoProvider(currency_from, currency_to)\<close> and its siblings.\<close>

definition MonoProvider_new :: "string \<Rightarrow> string \<Rightarrow> MonoProvider" where
  "MonoProvider_new cf ct =
     \<lparr>currency_from = cf, currency_to = ct, name = ''monobank'',
      iso_from_country_code = MonoProvider_iso_from_country_code\<rparr>"

definition PrivatbankProvider_new :: "string \<Rightarrow> string \<Rightarrow> PrivatbankProvider" where
  "PrivatbankProvider_new cf ct =
     \<lparr>currency_from = cf, currency_to = ct, name = ''privatbank''\<rparr>"

definition NationalBankProvider_new :: "string \<Rightarrow> string \<Rightarrow> NationalBankProvider" where
  "NationalBankProvider_new cf ct =
     \<lparr>currency_from = cf, currency_to = ct, name = ''NationalBank''\<rparr>"

definition VKurseProvider_new :: "string \<Rightarrow> string \<Rightarrow> VKurseProvider" where
  "VKurseProvider_new cf ct =
     \<lparr>currency_from = cf, currency_to = ct, name = ''VKurse'',
      country_code = VKurseProvider_country_code\<rparr>"

text \<open>
  The statement that ends every \<open>get_rate\<close>:
  \<open>raise RateNotFound(f"Cannot find rate from {self.currency_from} to
  {self.currency_to} in provider {self.name}")\<close>.
\<close>

definition raise_RateNotFound :: "('z ProviderBase_scheme, 'a) meth" where
  "raise_RateNotFound =
     bind (attr currency_from) (\<lambda>cf.
     bind (attr currency_to) (\<lambda>ct.
     bind (attr name) (\<lambda>n.
     raise (RateNotFound
       (''Cannot find rate from '' @ cf @ '' to '' @ ct @ '' in provider '' @ n)))))"

subsection \<open>MonoProvider\<close>

text \<open>
  The condition of the \<open>if\<close> in the loop; \<open>and\<close> does not evaluate its second
  operand when the first is false.
\<close>

definition MonoProvider_match :: "int \<Rightarrow> int \<Rightarrow> pyval \<Rightarrow> error + bool" where
  "MonoProvider_match currency_from_code currency_to_code currency =
     bindE (getitem currency ''currencyCodeA'') (\<lambda>a.
     if eq_int a currency_from_code
     then bindE (getitem currency ''currencyCodeB'') (\<lambda>b.
          Inr (eq_int b currency_to_code))
     else Inr False)"

text \<open>\<open>SellBuy(sell=float(currency["rateSell"]), buy=float(currency["rateBuy"]))\<close>\<close>

definition MonoProvider_value :: "pyval \<Rightarrow> error + SellBuy" where
  "MonoProvider_value currency =
     bindE (getitem currency ''rateSell'') (\<lambda>rs.
     bindE (float rs) (\<lambda>s.
     bindE (getitem currency ''rateBuy'') (\<lambda>rb.
     bindE (float rb) (\<lambda>b.
     Inr \<lparr>sell = s, buy = b\<rparr>))))"

fun MonoProvider_loop :: "int \<Rightarrow> int \<Rightarrow> pyval list \<Rightarrow> (MonoProvider, SellBuy) meth" where
  "MonoProvider_loop fc tc [] = raise_RateNotFound"
| "MonoProvider_loop fc tc (currency # rest) =
     bind (expr (MonoProvider_match fc tc currency)) (\<lambda>hit.
     if hit then bind (expr (MonoProvider_value currency)) (\<lambda>value. return value)
     else MonoProvider_loop fc tc rest)"

definition MonoProvider_url :: string where
  "MonoProvider_url = ''https://api.monobank.ua/bank/currency''"

definition MonoProvider_get_rate :: "network \<Rightarrow> (MonoProvider, SellBuy) meth" where
  "MonoProvider_get_rate net =
     bind (expr (requests_get net MonoProvider_url)) (\<lambda>response.
     bind (expr (raise_for_status response)) (\<lambda>u.
     bind (attr iso_from_country_code) (\<lambda>table.
     bind (attr currency_from) (\<lambda>cf.
     bind (expr (dict_getitem table cf)) (\<lambda>currency_from_code.
     bind (attr iso_from_country_code) (\<lambda>table'.
     bind (attr currency_to) (\<lambda>ct.
     bind (expr (dict_getitem table' ct)) (\<lambda>currency_to_code.
     bind (expr (Response_json response)) (\<lambda>body.
     bind (expr (iter body)) (\<lambda>items.
     MonoProvider_loop currency_from_code currency_to_code items))))))))))"

subsection \<open>PrivatbankProvider\<close>

definition PrivatbankProvider_match :: "string \<Rightarrow> string \<Rightarrow> pyval \<Rightarrow> error + bool" where
  "PrivatbankProvider_match cf ct currency =
     bindE (getitem currency ''ccy'') (\<lambda>a.
     if eq_str a cf
     then bindE (getitem currency ''base_ccy'') (\<lambda>b. Inr (eq_str b ct))
     else Inr False)"

text \<open>\<open>SellBuy(buy=float(currency["buy"]), sell=float(currency["sale"]))\<close>\<close>

definition PrivatbankProvider_value :: "pyval \<Rightarrow> error + SellBuy" where
  "PrivatbankProvider_value currency =
     bindE (getitem currency ''buy'') (\<lambda>rb.
     bindE (float rb) (\<lambda>b.
     bindE (getitem currency ''sale'') (\<lambda>rs.
     bindE (float rs) (\<lambda>s.
     Inr \<lparr>sell = s, buy = b\<rparr>))))"

fun PrivatbankProvider_loop :: "pyval list \<Rightarrow> (PrivatbankProvider, SellBuy) meth" where
  "PrivatbankProvider_loop [] = raise_RateNotFound"
| "PrivatbankProvider_loop (currency # rest) =
     bind (attr currency_from) (\<lambda>cf.
     bind (attr currency_to) (\<lambda>ct.
     bind (expr (PrivatbankProvider_match cf ct currency)) (\<lambda>hit.
     if hit then bind (expr (PrivatbankProvider_value currency)) (\<lambda>value. return value)
     else PrivatbankProvider_loop rest)))"

definition PrivatbankProvider_url :: string where
  "PrivatbankProvider_url = ''https://api.privatbank.ua/p24api/pubinfo?exchange&coursid=5''"

definition PrivatbankProvider_get_rate :: "network \<Rightarrow> (PrivatbankProvider, SellBuy) meth" where
  "PrivatbankProvider_get_rate net =
     bind (expr (requests_get net PrivatbankProvider_url)) (\<lambda>response.
     bind (expr (raise_for_status response)) (\<lambda>u.
     bind (expr (Response_json response)) (\<lambda>body.
     bind (expr (iter body)) (\<lambda>items.
     PrivatbankProvider_loop items))))"

subsection \<open>NationalBankProvider\<close>

definition NationalBankProvider_match :: "string \<Rightarrow> pyval \<Rightarrow> error + bool" where
  "NationalBankProvider_match cf currency =
     bindE (getitem currency ''cc'') (\<lambda>a. Inr (eq_str a cf))"

text \<open>
  \<open>SellBuy(buy=float(currency["rate"]), sell=float(currency["rate"] + 0.5))\<close>;
  the arguments are evaluated from left to right.
\<close>

definition NationalBankProvider_value :: "pyval \<Rightarrow> error + SellBuy" where
  "NationalBankProvider_value currency =
     bindE (getitem currency ''rate'') (\<lambda>r.
     bindE (float r) (\<lambda>b.
     bindE (getitem currency ''rate'') (\<lambda>r'.
     bindE (add_float r' (Finite (1 / 2))) (\<lambda>sum.
     bindE (float sum) (\<lambda>s.
     Inr \<lparr>sell = s, buy = b\<rparr>)))))"

fun NationalBankProvider_loop :: "pyval list \<Rightarrow> (NationalBankProvider, SellBuy) meth" where
  "NationalBankProvider_loop [] = raise_RateNotFound"
| "NationalBankProvider_loop (currency # rest) =
     bind (attr currency_from) (\<lambda>cf.
     bind (expr (NationalBankProvider_match cf currency)) (\<lambda>hit.
     if hit then bind (expr (NationalBankProvider_value currency)) (\<lambda>value. return value)
     else NationalBankProvider_loop rest))"

definition NationalBankProvider_url :: string where
  "NationalBankProvider_url = ''https://bank.gov.ua/NBUStatService/v1/statdirectory/exchange?json''"

definition NationalBankProvider_get_rate :: "network \<Rightarrow> (NationalBankProvider, SellBuy) meth" where
  "NationalBankProvider_get_rate net =
     bind (expr (requests_get net NationalBankProvider_url)) (\<lambda>response.
     bind (expr (raise_for_status response)) (\<lambda>u.
     bind (expr (Response_json response)) (\<lambda>body.
     bind (expr (iter body)) (\<lambda>items.
     NationalBankProvider_loop items))))"

subsection \<open>VKurseProvider\<close>

text \<open>\<open>SellBuy(sell=float(currency_data['sale']), buy=float(currency_data['buy']))\<close>\<close>

definition VKurseProvider_value :: "pyval \<Rightarrow> error + SellBuy" where
  "VKurseProvider_value currency_data =
     bindE (getitem currency_data ''sale'') (\<lambda>rs.
     bindE (float rs) (\<lambda>s.
     bindE (getitem currency_data ''buy'') (\<lambda>rb.
     bindE (float rb) (\<lambda>b.
     Inr \<lparr>sell = s, buy = b\<rparr>))))"

definition VKurseProvider_url :: string where
  "VKurseProvider_url = ''https://vkurse.dp.ua/course.json''"

definition VKurseProvider_get_rate :: "network \<Rightarrow> (VKurseProvider, SellBuy) meth" where
  "VKurseProvider_get_rate net =
     bind (expr (requests_get net VKurseProvider_url)) (\<lambda>response.
     bind (expr (raise_for_status response)) (\<lambda>u.
     bind (attr country_code) (\<lambda>table.
     bind (attr currency_from) (\<lambda>cf.
     bind (expr (dict_getitem table cf)) (\<lambda>currency_from_code.
     bind (expr (Response_json response)) (\<lambda>body.
     bind (expr (get body currency_from_code)) (\<lambda>currency_data.
     if truthy currency_data
     then bind (expr (VKurseProvider_value currency_data)) (\<lambda>value. return value)
     else raise_RateNotFound)))))))"

subsection \<open>Synthetic responses\<close>

text \<open>
  A response with status 200 whose body decodes to the given value, and a network
  on which every GET is answered by the given response.
\<close>

definition json_response :: "pyval \<Rightarrow> Response" where
  "json_response v = \<lparr>status_code = 200, json_body = Some v\<rparr>"

definition serve :: "Response \<Rightarrow> network" where
  "serve response = (\<lambda>url. Inr response)"

text \<open>Three feeds in which the second record is the earliest match for USD.\<close>

definition mono_feed :: "pyval list" where
  "mono_feed =
     [PDict [(''currencyCodeA'', PInt 978), (''currencyCodeB'', PInt 980),
             (''rateSell'', PFloat (Finite 30)), (''rateBuy'', PFloat (Finite 29))],
      PDict [(''currencyCodeA'', PInt 840), (''currencyCodeB'', PInt 980),
             (''rateSell'', PFloat (Finite (55 / 2))), (''rateBuy'', PFloat (Finite 27))],
      PDict [(''currencyCodeA'', PInt 840), (''currencyCodeB'', PInt 980),
             (''rateSell'', PFloat (Finite 99)), (''rateBuy'', PFloat (Finite 98))]]"

definition privat_feed :: "pyval list" where
  "privat_feed =
     [PDict [(''ccy'', PStr ''EUR''), (''base_ccy'', PStr ''UAH''),
             (''buy'', PStr ''29''), (''sale'', PStr ''30'')],
      PDict [(''ccy'', PStr ''USD''), (''base_ccy'', PStr ''UAH''),
             (''buy'', PStr ''27.0''), (''sale'', PStr ''27.5'')],
      PDict [(''ccy'', PStr ''USD''), (''base_ccy'', PStr ''UAH''),
             (''buy'', PStr ''98''), (''sale'', PStr ''99'')]]"

definition national_feed :: "pyval list" where
  "national_feed =
     [PDict [(''cc'', PStr ''EUR''), (''rate'', PFloat (Finite 30))],
      PDict [(''cc'', PStr ''USD''), (''rate'', PFloat (Finite 27))],
      PDict [(''cc'', PStr ''USD''), (''rate'', PFloat (Finite 98))]]"

text \<open>
  \<open>fetched net url body\<close>: on the network \<open>net\<close>, the GET of \<open>url\<close> is answered
  with a status that passes \<open>raise_for_status\<close> and a body that decodes to \<open>body\<close>.
\<close>

definition fetched :: "network \<Rightarrow> string \<Rightarrow> pyval \<Rightarrow> bool" where
  "fetched net url body = (case net url of
       Inl msg \<Rightarrow> False
     | Inr response \<Rightarrow> ok response \<and> json_body response = Some body)"

text \<open>A method is read-only when it leaves every state as it found it.\<close>

definition readonly :: "('s, 'a) meth \<Rightarrow> bool" where
  "readonly m = (\<forall>self. snd (m self) = self)"

section \<open>Properties\<close>

subsection \<open>Sequencing\<close>

lemma bindE_Inr [simp]: "bindE (Inr x) f = f x"
  by (simp add: bindE_def)

lemma bindE_Inl [simp]: "bindE (Inl e) f = Inl e"
  by (simp add: bindE_def)

lemma bind_expr [simp]:
  "bind (expr r) f self = (case r of Inl e \<Rightarrow> (Inl e, self) | Inr x \<Rightarrow> f x self)"
  by (simp add: bind_def expr_def split: sum.splits)

lemma bind_expr_return [simp]: "bind (expr r) return = expr r"
  by (auto simp: bind_def expr_def return_def split: sum.splits)

lemma bind_attr [simp]: "bind (attr a) f self = f (a self) self"
  by (simp add: bind_def attr_def)

lemma expr_apply [simp]: "expr r self = (r, self)"
  by (simp add: expr_def)

lemma raise_apply [simp]: "raise e self = (Inl e, self)"
  by (simp add: raise_def)

lemma raise_RateNotFound_apply:
  "raise_RateNotFound self =
     (Inl (RateNotFound (''Cannot find rate from '' @ currency_from self @ '' to '' @
        currency_to self @ '' in provider '' @ name self)), self)"
  by (simp add: raise_RateNotFound_def)

subsection \<open>No method writes to its object\<close>

lemma readonly_return: "readonly (return x)"
  by (simp add: readonly_def return_def)

lemma readonly_raise: "readonly (raise e)"
  by (simp add: readonly_def)

lemma readonly_expr: "readonly (expr r)"
  by (simp add: readonly_def)

lemma readonly_attr: "readonly (attr a)"
  by (simp add: readonly_def attr_def)

lemma readonly_bind:
  assumes "readonly m" and "\<And>x. readonly (f x)"
  shows "readonly (bind m f)"
proof -
  have "snd (bind m f self) = self" for self
  proof (cases "m self")
    case (Pair r self')
    with assms(1) have same: "self' = self"
      by (metis readonly_def snd_conv)
    show ?thesis
    proof (cases r)
      case (Inl e)
      with Pair same show ?thesis by (simp add: bind_def)
    next
      case (Inr x)
      with Pair same assms(2) [of x] show ?thesis
        by (simp add: bind_def readonly_def)
    qed
  qed
  then show ?thesis by (simp add: readonly_def)
qed

lemma readonly_if: "readonly m \<Longrightarrow> readonly m' \<Longrightarrow> readonly (if b then m else m')"
  by simp

lemmas readonly_intros =
  readonly_bind readonly_return readonly_raise readonly_expr readonly_attr readonly_if

lemma readonly_raise_RateNotFound: "readonly raise_RateNotFound"
  unfolding raise_RateNotFound_def by (intro readonly_intros)

lemma readonly_MonoProvider_loop: "readonly (MonoProvider_loop fc tc items)"
proof (induction items)
  case Nil
  show ?case
    unfolding MonoProvider_loop.simps by (rule readonly_raise_RateNotFound)
next
  case (Cons currency rest)
  show ?case
    unfolding MonoProvider_loop.simps by (intro readonly_intros Cons)
qed

lemma readonly_PrivatbankProvider_loop: "readonly (PrivatbankProvider_loop items)"
proof (induction items)
  case Nil
  show ?case
    unfolding PrivatbankProvider_loop.simps by (rule readonly_raise_RateNotFound)
next
  case (Cons currency rest)
  show ?case
    unfolding PrivatbankProvider_loop.simps by (intro readonly_intros Cons)
qed

lemma readonly_NationalBankProvider_loop: "readonly (NationalBankProvider_loop items)"
proof (induction items)
  case Nil
  show ?case
    unfolding NationalBankProvider_loop.simps by (rule readonly_raise_RateNotFound)
next
  case (Cons currency rest)
  show ?case
    unfolding NationalBankProvider_loop.simps by (intro readonly_intros Cons)
qed

lemma readonly_MonoProvider_get_rate: "readonly (MonoProvider_get_rate net)"
  unfolding MonoProvider_get_rate_def
  by (intro readonly_intros readonly_MonoProvider_loop)

lemma readonly_PrivatbankProvider_get_rate: "readonly (PrivatbankProvider_get_rate net)"
  unfolding PrivatbankProvider_get_rate_def
  by (intro readonly_intros readonly_PrivatbankProvider_loop)

lemma readonly_NationalBankProvider_get_rate: "readonly (NationalBankProvider_get_rate net)"
  unfolding NationalBankProvider_get_rate_def
  by (intro readonly_intros readonly_NationalBankProvider_loop)

lemma readonly_VKurseProvider_get_rate: "readonly (VKurseProvider_get_rate net)"
  unfolding VKurseProvider_get_rate_def
  by (intro readonly_intros readonly_raise_RateNotFound)

subsection \<open>After a successful fetch\<close>

lemma fetchedD:
  assumes "fetched net url body"
  obtains response where "net url = Inr response" "ok response" "json_body response = Some body"
  using assms by (auto simp: fetched_def split: sum.splits)

lemma ok_raise_for_status: "ok response \<Longrightarrow> raise_for_status response = Inr ()"
  by (simp add: ok_def split: sum.splits)

lemma MonoProvider_loop_no_match:
  "\<forall>c\<in>set items. MonoProvider_match fc tc c = Inr False \<Longrightarrow>
   MonoProvider_loop fc tc items self = raise_RateNotFound self"
  by (induction items) simp_all

lemma MonoProvider_loop_first_match:
  "\<forall>x\<in>set pre. MonoProvider_match fc tc x = Inr False \<Longrightarrow>
   MonoProvider_match fc tc c = Inr True \<Longrightarrow>
   MonoProvider_loop fc tc (pre @ c # post) self = (MonoProvider_value c, self)"
  by (induction pre) simp_all

lemma PrivatbankProvider_loop_no_match:
  "\<forall>c\<in>set items. PrivatbankProvider_match (currency_from self) (currency_to self) c = Inr False \<Longrightarrow>
   PrivatbankProvider_loop items self = raise_RateNotFound self"
  by (induction items) simp_all

lemma PrivatbankProvider_loop_first_match:
  "\<forall>x\<in>set pre. PrivatbankProvider_match (currency_from self) (currency_to self) x = Inr False \<Longrightarrow>
   PrivatbankProvider_match (currency_from self) (currency_to self) c = Inr True \<Longrightarrow>
   PrivatbankProvider_loop (pre @ c # post) self = (PrivatbankProvider_value c, self)"
  by (induction pre) simp_all

lemma NationalBankProvider_loop_no_match:
  "\<forall>c\<in>set items. NationalBankProvider_match (currency_from self) c = Inr False \<Longrightarrow>
   NationalBankProvider_loop items self = raise_RateNotFound self"
  by (induction items) simp_all

lemma NationalBankProvider_loop_first_match:
  "\<forall>x\<in>set pre. NationalBankProvider_match (currency_from self) x = Inr False \<Longrightarrow>
   NationalBankProvider_match (currency_from self) c = Inr True \<Longrightarrow>
   NationalBankProvider_loop (pre @ c # post) self = (NationalBankProvider_value c, self)"
  by (induction pre) simp_all

lemma MonoProvider_get_rate_fetched:
  assumes "fetched net MonoProvider_url body"
    and "map_of (iso_from_country_code self) (currency_from self) = Some fc"
    and "map_of (iso_from_country_code self) (currency_to self) = Some tc"
    and "iter body = Inr items"
  shows "MonoProvider_get_rate net self = MonoProvider_loop fc tc items self"
proof -
  from assms(1) obtain response where
    "net MonoProvider_url = Inr response" "ok response" "json_body response = Some body"
    by (rule fetchedD)
  with assms(2-4) show ?thesis
    by (simp add: MonoProvider_get_rate_def requests_get_def ok_raise_for_status
        dict_getitem_def Response_json_def)
qed

lemma PrivatbankProvider_get_rate_fetched:
  assumes "fetched net PrivatbankProvider_url body" and "iter body = Inr items"
  shows "PrivatbankProvider_get_rate net self = PrivatbankProvider_loop items self"
proof -
  from assms(1) obtain response where
    "net PrivatbankProvider_url = Inr response" "ok response" "json_body response = Some body"
    by (rule fetchedD)
  with assms(2) show ?thesis
    by (simp add: PrivatbankProvider_get_rate_def requests_get_def ok_raise_for_status
        Response_json_def)
qed

lemma NationalBankProvider_get_rate_fetched:
  assumes "fetched net NationalBankProvider_url body" and "iter body = Inr items"
  shows "NationalBankProvider_get_rate net self = NationalBankProvider_loop items self"
proof -
  from assms(1) obtain response where
    "net NationalBankProvider_url = Inr response" "ok response" "json_body response = Some body"
    by (rule fetchedD)
  with assms(2) show ?thesis
    by (simp add: NationalBankProvider_get_rate_def requests_get_def ok_raise_for_status
        Response_json_def)
qed

lemma VKurseProvider_get_rate_fetched:
  assumes "fetched net VKurseProvider_url body"
    and "map_of (country_code self) (currency_from self) = Some code"
    and "get body code = Inr currency_data"
  shows "VKurseProvider_get_rate net self =
     (if truthy currency_data then (VKurseProvider_value currency_data, self)
      else raise_RateNotFound self)"
proof -
  from assms(1) obtain response where
    "net VKurseProvider_url = Inr response" "ok response" "json_body response = Some body"
    by (rule fetchedD)
  with assms(2-3) show ?thesis
    by (simp add: VKurseProvider_get_rate_def requests_get_def ok_raise_for_status
        dict_getitem_def Response_json_def)
qed

lemma fetched_serve [simp]: "fetched (serve (json_response v)) url body = (body = v)"
  by (auto simp: fetched_def serve_def json_response_def ok_def raise_for_status_def)

subsection \<open>Values of some literals\<close>

lemma parse_float_27: "parse_float ''27.0'' = Some (Finite 27)"
  by code_simp

lemma parse_float_27_5: "parse_float ''27.5'' = Some (Finite (55 / 2))"
  by code_simp

lemma round64_27_5: "round64 (55 / 2) = Finite (55 / 2)"
  by code_simp

subsection \<open>Matching rules and conversions\<close>

lemma eq_str_iff: "eq_str v s \<longleftrightarrow> v = PStr s"
  by (cases v) auto

lemma NationalBankProvider_match_PDict:
  "NationalBankProvider_match cf (PDict d) = Inr True \<longleftrightarrow> map_of d ''cc'' = Some (PStr cf)"
  by (cases "map_of d ''cc''") (simp_all add: NationalBankProvider_match_def eq_str_iff)

lemma PrivatbankProvider_match_PDict:
  "PrivatbankProvider_match cf ct (PDict d) = Inr True \<longleftrightarrow>
     map_of d ''ccy'' = Some (PStr cf) \<and> map_of d ''base_ccy'' = Some (PStr ct)"
  by (cases "map_of d ''ccy''"; cases "map_of d ''base_ccy''")
     (simp_all add: PrivatbankProvider_match_def eq_str_iff)

lemma NationalBankProvider_value_rate:
  assumes "map_of d ''rate'' = Some r"
  shows "NationalBankProvider_value (PDict d) =
     bindE (float r) (\<lambda>b.
     bindE (add_float r (Finite (1 / 2))) (\<lambda>sum.
     bindE (float sum) (\<lambda>s. Inr \<lparr>sell = s, buy = b\<rparr>)))"
  using assms by (simp add: NationalBankProvider_value_def)

lemma bindE_eq_Inr: "bindE m f = Inr y \<longleftrightarrow> (\<exists>x. m = Inr x \<and> f x = Inr y)"
  by (cases m) simp_all

lemma NationalBankProvider_value_markup:
  assumes "map_of d ''rate'' = Some r" and "NationalBankProvider_value (PDict d) = Inr p"
  shows "float r = Inr (buy p) \<and> sell p = float_add (buy p) (Finite (1 / 2))"
proof -
  from assms obtain b sum s where
    b: "float r = Inr b" and sum: "add_float r (Finite (1 / 2)) = Inr sum"
    and s: "float sum = Inr s" and p: "p = \<lparr>sell = s, buy = b\<rparr>"
    by (auto simp: NationalBankProvider_value_rate bindE_eq_Inr)
  have "s = float_add b (Finite (1 / 2))"
  proof (cases r)
    case (PInt i)
    with b sum s show ?thesis by (auto simp: bindE_eq_Inr)
  qed (use b sum s in auto)
  with b p show ?thesis by simp
qed

lemma int_to_float_30: "int_to_float 30 = Inr (Finite 30)"
  by code_simp

lemma round64_30_5: "round64 (61 / 2) = Finite (61 / 2)"
  by code_simp

subsection \<open>What can go wrong before the scan\<close>

lemma float_not_RateNotFound: "float v \<noteq> Inl (RateNotFound m)"
  by (cases v) (auto simp: int_to_float_def split: option.splits float64.splits)

lemma getitem_not_RateNotFound: "getitem v k \<noteq> Inl (RateNotFound m)"
  by (cases v) (auto split: option.splits)

lemma bindE_eq_Inl:
  "bindE m f = Inl e \<longleftrightarrow> m = Inl e \<or> (\<exists>x. m = Inr x \<and> f x = Inl e)"
  by (cases m) simp_all

lemma VKurseProvider_value_not_RateNotFound:
  "VKurseProvider_value v \<noteq> Inl (RateNotFound m)"
  by (auto simp: VKurseProvider_value_def bindE_eq_Inl float_not_RateNotFound
      getitem_not_RateNotFound)

lemma MonoProvider_get_rate_answered:
  assumes "net MonoProvider_url = Inr response" and "ok response"
  shows "MonoProvider_get_rate net self =
     (case map_of (iso_from_country_code self) (currency_from self) of
        None \<Rightarrow> (Inl (KeyError (currency_from self)), self)
      | Some fc \<Rightarrow>
          (case map_of (iso_from_country_code self) (currency_to self) of
             None \<Rightarrow> (Inl (KeyError (currency_to self)), self)
           | Some tc \<Rightarrow>
               (case Response_json response of
                  Inl e \<Rightarrow> (Inl e, self)
                | Inr body \<Rightarrow>
                    (case iter body of
                       Inl e \<Rightarrow> (Inl e, self)
                     | Inr items \<Rightarrow> MonoProvider_loop fc tc items self))))"
  using assms
  by (simp add: MonoProvider_get_rate_def requests_get_def ok_raise_for_status
      dict_getitem_def split: option.splits sum.splits)

lemma VKurseProvider_get_rate_answered:
  assumes "net VKurseProvider_url = Inr response" and "ok response"
  shows "VKurseProvider_get_rate net self =
     (case map_of (country_code self) (currency_from self) of
        None \<Rightarrow> (Inl (KeyError (currency_from self)), self)
      | Some code \<Rightarrow>
          (case Response_json response of
             Inl e \<Rightarrow> (Inl e, self)
           | Inr body \<Rightarrow>
               (case get body code of
                  Inl e \<Rightarrow> (Inl e, self)
                | Inr currency_data \<Rightarrow>
                    if truthy currency_data
                    then (VKurseProvider_value currency_data, self)
                    else raise_RateNotFound self)))"
  using assms
  by (simp add: VKurseProvider_get_rate_def requests_get_def ok_raise_for_status
      dict_getitem_def split: option.splits sum.splits)

lemma not_ok_raise_for_status:
  "\<not> ok response \<Longrightarrow> raise_for_status response = Inl (HTTPError (status_code response))"
  by (simp add: ok_def raise_for_status_def split: if_splits)

lemma not_ok_iff: "\<not> ok response \<longleftrightarrow> 400 \<le> status_code response \<and> status_code response < 600"
  by (auto simp: ok_def raise_for_status_def)

lemma MonoProvider_get_rate_not_ok:
  "net MonoProvider_url = Inr response \<Longrightarrow> \<not> ok response \<Longrightarrow>
   MonoProvider_get_rate net self = (Inl (HTTPError (status_code response)), self)"
  by (simp add: MonoProvider_get_rate_def requests_get_def not_ok_raise_for_status)

lemma PrivatbankProvider_get_rate_not_ok:
  "net PrivatbankProvider_url = Inr response \<Longrightarrow> \<not> ok response \<Longrightarrow>
   PrivatbankProvider_get_rate net self = (Inl (HTTPError (status_code response)), self)"
  by (simp add: PrivatbankProvider_get_rate_def requests_get_def not_ok_raise_for_status)

lemma NationalBankProvider_get_rate_not_ok:
  "net NationalBankProvider_url = Inr response \<Longrightarrow> \<not> ok response \<Longrightarrow>
   NationalBankProvider_get_rate net self = (Inl (HTTPError (status_code response)), self)"
  by (simp add: NationalBankProvider_get_rate_def requests_get_def not_ok_raise_for_status)

lemma VKurseProvider_get_rate_not_ok:
  "net VKurseProvider_url = Inr response \<Longrightarrow> \<not> ok response \<Longrightarrow>
   VKurseProvider_get_rate net self = (Inl (HTTPError (status_code response)), self)"
  by (simp add: VKurseProvider_get_rate_def requests_get_def not_ok_raise_for_status)

lemma ok_json_body_update [simp]: "ok (response\<lparr>json_body := j\<rparr>) = ok response"
  by (simp add: ok_def raise_for_status_def)

lemma MonoProvider_get_rate_unmapped:
  assumes "map_of (iso_from_country_code self) (currency_from self) = None \<or>
           map_of (iso_from_country_code self) (currency_to self) = None"
  shows "(\<forall>p. fst (MonoProvider_get_rate net self) \<noteq> Inr p) \<and>
         (\<forall>m. fst (MonoProvider_get_rate net self) \<noteq> Inl (RateNotFound m))"
proof (cases "net MonoProvider_url")
  case (Inl msg)
  then show ?thesis
    by (simp add: MonoProvider_get_rate_def requests_get_def)
next
  case (Inr response)
  show ?thesis
  proof (cases "ok response")
    case True
    with Inr assms show ?thesis
      by (auto simp: MonoProvider_get_rate_answered split: option.splits)
  next
    case False
    with Inr show ?thesis
      by (simp add: MonoProvider_get_rate_not_ok)
  qed
qed

lemma VKurseProvider_get_rate_unmapped:
  assumes "map_of (country_code self) (currency_from self) = None"
  shows "(\<forall>p. fst (VKurseProvider_get_rate net self) \<noteq> Inr p) \<and>
         (\<forall>m. fst (VKurseProvider_get_rate net self) \<noteq> Inl (RateNotFound m))"
proof (cases "net VKurseProvider_url")
  case (Inl msg)
  then show ?thesis
    by (simp add: VKurseProvider_get_rate_def requests_get_def)
next
  case (Inr response)
  show ?thesis
  proof (cases "ok response")
    case True
    with Inr assms show ?thesis
      by (simp add: VKurseProvider_get_rate_answered)
  next
    case False
    with Inr show ?thesis
      by (simp add: VKurseProvider_get_rate_not_ok)
  qed
qed

lemma ok_json_response [simp]: "ok (json_response v)"
  by (simp add: json_response_def ok_def raise_for_status_def)

lemma VKurseProvider_get_rate_object:
  assumes "fetched net VKurseProvider_url (PDict d)"
    and "map_of VKurseProvider_country_code cf = Some code"
  shows "fst (VKurseProvider_get_rate net (VKurseProvider_new cf ct)) =
     (case map_of d code of
        None \<Rightarrow> Inl (RateNotFound
          (''Cannot find rate from '' @ cf @ '' to '' @ ct @ '' in provider VKurse''))
      | Some v \<Rightarrow>
          if truthy v then VKurseProvider_value v
          else Inl (RateNotFound
            (''Cannot find rate from '' @ cf @ '' to '' @ ct @ '' in provider VKurse'')))"
proof -
  from assms(2) have "map_of (country_code (VKurseProvider_new cf ct))
      (currency_from (VKurseProvider_new cf ct)) = Some code"
    by (simp add: VKurseProvider_new_def)
  with assms(1) have "VKurseProvider_get_rate net (VKurseProvider_new cf ct) =
      (if truthy (case map_of d code of None \<Rightarrow> PNone | Some v \<Rightarrow> v)
       then (VKurseProvider_value (case map_of d code of None \<Rightarrow> PNone | Some v \<Rightarrow> v),
             VKurseProvider_new cf ct)
       else raise_RateNotFound (VKurseProvider_new cf ct))"
    by (rule VKurseProvider_get_rate_fetched) simp
  then show ?thesis
    by (simp add: raise_RateNotFound_apply VKurseProvider_new_def split: option.splits)
qed

lemma NationalBankProvider_value_str:
  assumes "map_of d ''rate'' = Some (PStr s)"
  shows "NationalBankProvider_value (PDict d) =
     (if float (PStr s) = Inl ValueError then Inl ValueError else Inl TypeError)"
  using assms by (simp add: NationalBankProvider_value_rate split: option.splits)

lemma parse_float_comma: "parse_float ''27,5'' = None"
  by code_simp

lemma MonoProvider_match_PDict_True:
  "MonoProvider_match fc tc (PDict d) = Inr True \<longleftrightarrow>
     (\<exists>a b. map_of d ''currencyCodeA'' = Some a \<and> eq_int a fc \<and>
            map_of d ''currencyCodeB'' = Some b \<and> eq_int b tc)"
  by (cases "map_of d ''currencyCodeA''"; cases "map_of d ''currencyCodeB''")
     (auto simp: MonoProvider_match_def)

lemma MonoProvider_match_PDict_False:
  "MonoProvider_match fc tc (PDict d) = Inr False \<longleftrightarrow>
     (\<exists>a. map_of d ''currencyCodeA'' = Some a \<and>
          (\<not> eq_int a fc \<or> (\<exists>b. map_of d ''currencyCodeB'' = Some b \<and> \<not> eq_int b tc)))"
  by (cases "map_of d ''currencyCodeA''"; cases "map_of d ''currencyCodeB''")
     (auto simp: MonoProvider_match_def)

section \<open>The claims\<close>

text \<open>
  C1, as the code has it. For every variant, after a successful fetch in which no
  record matches the requested pair (for the three scanning variants every
  record of the array fails the variant's test; for VKurse the object has no
  entry under the translated name), and with the requested codes in the
  variant's table where it has one (\<open>from\<close> and \<open>to\<close> for Mono, \<open>from\<close> for
  VKurse), \<open>get_rate\<close> raises \<open>RateNotFound\<close> with the message
  \<open>"Cannot find rate from {from} to {to} in provider {name}"\<close>.
\<close>

theorem no_match_raises_RateNotFound:
  "(fetched net MonoProvider_url (PList items) \<and>
    map_of MonoProvider_iso_from_country_code cf = Some fc \<and>
    map_of MonoProvider_iso_from_country_code ct = Some tc \<and>
    (\<forall>x\<in>set items. MonoProvider_match fc tc x = Inr False)
    \<longrightarrow> fst (MonoProvider_get_rate net (MonoProvider_new cf ct)) =
          Inl (RateNotFound
            (''Cannot find rate from '' @ cf @ '' to '' @ ct @ '' in provider monobank''))) \<and>
   (fetched net PrivatbankProvider_url (PList items) \<and>
    (\<forall>x\<in>set items. PrivatbankProvider_match cf ct x = Inr False)
    \<longrightarrow> fst (PrivatbankProvider_get_rate net (PrivatbankProvider_new cf ct)) =
          Inl (RateNotFound
            (''Cannot find rate from '' @ cf @ '' to '' @ ct @ '' in provider privatbank''))) \<and>
   (fetched net NationalBankProvider_url (PList items) \<and>
    (\<forall>x\<in>set items. NationalBankProvider_match cf x = Inr False)
    \<longrightarrow> fst (NationalBankProvider_get_rate net (NationalBankProvider_new cf ct)) =
          Inl (RateNotFound
            (''Cannot find rate from '' @ cf @ '' to '' @ ct @ '' in provider NationalBank''))) \<and>
   (fetched net VKurseProvider_url (PDict d) \<and>
    map_of VKurseProvider_country_code cf = Some code \<and> map_of d code = None
    \<longrightarrow> fst (VKurseProvider_get_rate net (VKurseProvider_new cf ct)) =
          Inl (RateNotFound
            (''Cannot find rate from '' @ cf @ '' to '' @ ct @ '' in provider VKurse'')))"
proof (intro conjI impI)
  assume h: "fetched net MonoProvider_url (PList items) \<and>
    map_of MonoProvider_iso_from_country_code cf = Some fc \<and>
    map_of MonoProvider_iso_from_country_code ct = Some tc \<and>
    (\<forall>x\<in>set items. MonoProvider_match fc tc x = Inr False)"
  then have "MonoProvider_get_rate net (MonoProvider_new cf ct) =
      MonoProvider_loop fc tc items (MonoProvider_new cf ct)"
    by (intro MonoProvider_get_rate_fetched [where body = "PList items"])
       (simp_all add: MonoProvider_new_def)
  with h show "fst (MonoProvider_get_rate net (MonoProvider_new cf ct)) =
      Inl (RateNotFound
        (''Cannot find rate from '' @ cf @ '' to '' @ ct @ '' in provider monobank''))"
    by (simp add: MonoProvider_loop_no_match raise_RateNotFound_apply MonoProvider_new_def)
next
  assume h: "fetched net PrivatbankProvider_url (PList items) \<and>
    (\<forall>x\<in>set items. PrivatbankProvider_match cf ct x = Inr False)"
  then have "PrivatbankProvider_get_rate net (PrivatbankProvider_new cf ct) =
      PrivatbankProvider_loop items (PrivatbankProvider_new cf ct)"
    by (intro PrivatbankProvider_get_rate_fetched [where body = "PList items"]) simp_all
  with h show "fst (PrivatbankProvider_get_rate net (PrivatbankProvider_new cf ct)) =
      Inl (RateNotFound
        (''Cannot find rate from '' @ cf @ '' to '' @ ct @ '' in provider privatbank''))"
    by (simp add: PrivatbankProvider_loop_no_match raise_RateNotFound_apply
        PrivatbankProvider_new_def)
next
  assume h: "fetched net NationalBankProvider_url (PList items) \<and>
    (\<forall>x\<in>set items. NationalBankProvider_match cf x = Inr False)"
  then have "NationalBankProvider_get_rate net (NationalBankProvider_new cf ct) =
      NationalBankProvider_loop items (NationalBankProvider_new cf ct)"
    by (intro NationalBankProvider_get_rate_fetched [where body = "PList items"]) simp_all
  with h show "fst (NationalBankProvider_get_rate net (NationalBankProvider_new cf ct)) =
      Inl (RateNotFound
        (''Cannot find rate from '' @ cf @ '' to '' @ ct @ '' in provider NationalBank''))"
    by (simp add: NationalBankProvider_loop_no_match raise_RateNotFound_apply
        NationalBankProvider_new_def)
next
  assume h: "fetched net VKurseProvider_url (PDict d) \<and>
    map_of VKurseProvider_country_code cf = Some code \<and> map_of d code = None"
  then have "fst (VKurseProvider_get_rate net (VKurseProvider_new cf ct)) =
     (case map_of d code of
        None \<Rightarrow> Inl (RateNotFound
          (''Cannot find rate from '' @ cf @ '' to '' @ ct @ '' in provider VKurse''))
      | Some v \<Rightarrow>
          if truthy v then VKurseProvider_value v
          else Inl (RateNotFound
            (''Cannot find rate from '' @ cf @ '' to '' @ ct @ '' in provider VKurse'')))"
    by (intro VKurseProvider_get_rate_object) simp_all
  with h show "fst (VKurseProvider_get_rate net (VKurseProvider_new cf ct)) =
      Inl (RateNotFound
        (''Cannot find rate from '' @ cf @ '' to '' @ ct @ '' in provider VKurse''))"
    by simp
qed

theorem no_match_raises_RateNotFound_witness:
  "fst (MonoProvider_get_rate (serve (json_response (PList mono_feed)))
          (MonoProvider_new ''UAH'' ''EUR'')) =
     Inl (RateNotFound ''Cannot find rate from UAH to EUR in provider monobank'') \<and>
   fst (PrivatbankProvider_get_rate (serve (json_response (PList privat_feed)))
          (PrivatbankProvider_new ''GBP'' ''UAH'')) =
     Inl (RateNotFound ''Cannot find rate from GBP to UAH in provider privatbank'') \<and>
   fst (NationalBankProvider_get_rate (serve (json_response (PList national_feed)))
          (NationalBankProvider_new ''GBP'' ''UAH'')) =
     Inl (RateNotFound ''Cannot find rate from GBP to UAH in provider NationalBank'') \<and>
   fst (VKurseProvider_get_rate
          (serve (json_response (PDict
             [(''Dollar'', PDict [(''sale'', PStr ''27.5''), (''buy'', PStr ''27.0'')])])))
          (VKurseProvider_new ''EUR'' ''UAH'')) =
     Inl (RateNotFound ''Cannot find rate from EUR to UAH in provider VKurse'')"
proof (intro conjI)
  show "fst (MonoProvider_get_rate (serve (json_response (PList mono_feed)))
          (MonoProvider_new ''UAH'' ''EUR'')) =
     Inl (RateNotFound ''Cannot find rate from UAH to EUR in provider monobank'')"
    using no_match_raises_RateNotFound
      [where net = "serve (json_response (PList mono_feed))" and items = mono_feed
         and cf = "''UAH''" and ct = "''EUR''" and fc = 980 and tc = 978,
       THEN conjunct1, THEN mp]
    by (simp add: mono_feed_def MonoProvider_iso_from_country_code_def MonoProvider_match_def)
  show "fst (PrivatbankProvider_get_rate (serve (json_response (PList privat_feed)))
          (PrivatbankProvider_new ''GBP'' ''UAH'')) =
     Inl (RateNotFound ''Cannot find rate from GBP to UAH in provider privatbank'')"
    using no_match_raises_RateNotFound
      [where net = "serve (json_response (PList privat_feed))" and items = privat_feed
         and cf = "''GBP''" and ct = "''UAH''",
       THEN conjunct2, THEN conjunct1, THEN mp]
    by (simp add: privat_feed_def PrivatbankProvider_match_def)
  show "fst (NationalBankProvider_get_rate (serve (json_response (PList national_feed)))
          (NationalBankProvider_new ''GBP'' ''UAH'')) =
     Inl (RateNotFound ''Cannot find rate from GBP to UAH in provider NationalBank'')"
    using no_match_raises_RateNotFound
      [where net = "serve (json_response (PList national_feed))" and items = national_feed
         and cf = "''GBP''" and ct = "''UAH''",
       THEN conjunct2, THEN conjunct2, THEN conjunct1, THEN mp]
    by (simp add: national_feed_def NationalBankProvider_match_def)
  show "fst (VKurseProvider_get_rate
          (serve (json_response (PDict
             [(''Dollar'', PDict [(''sale'', PStr ''27.5''), (''buy'', PStr ''27.0'')])])))
          (VKurseProvider_new ''EUR'' ''UAH'')) =
     Inl (RateNotFound ''Cannot find rate from EUR to UAH in provider VKurse'')"
    using no_match_raises_RateNotFound
      [where net = "serve (json_response (PDict
             [(''Dollar'', PDict [(''sale'', PStr ''27.5''), (''buy'', PStr ''27.0'')])]))"
         and d = "[(''Dollar'', PDict [(''sale'', PStr ''27.5''), (''buy'', PStr ''27.0'')])]"
         and cf = "''EUR''" and ct = "''UAH''" and code = "''Euro''",
       THEN conjunct2, THEN conjunct2, THEN conjunct2, THEN mp]
    by (simp add: VKurseProvider_country_code_def)
qed

text \<open>
  C1 as stated fails for a code outside Mono's table: no record of the feed
  matches \<open>(GBP, UAH)\<close>, yet the call raises \<open>KeyError\<close>, not \<open>RateNotFound\<close>.
\<close>

theorem no_match_raises_RateNotFound_counterexample:
  "fst (MonoProvider_get_rate
          (serve (json_response (PList
             [PDict [(''currencyCodeA'', PInt 840), (''currencyCodeB'', PInt 980),
                     (''rateSell'', PStr ''27.5''), (''rateBuy'', PStr ''27.0'')]])))
          (MonoProvider_new ''GBP'' ''UAH'')) = Inl (KeyError ''GBP'')"
  by (simp add: MonoProvider_get_rate_answered [where response = "json_response (PList
             [PDict [(''currencyCodeA'', PInt 840), (''currencyCodeB'', PInt 980),
                     (''rateSell'', PStr ''27.5''), (''rateBuy'', PStr ''27.0'')]])"]
      serve_def MonoProvider_new_def MonoProvider_iso_from_country_code_def)

text \<open>
  C2. For the Mono variant with both currency codes in the table
  \<open>{UAH: 980, USD: 840, EUR: 978}\<close>, after a successful fetch of an array,
  \<open>get_rate\<close> gives the pair built from the first record whose \<open>currencyCodeA\<close>
  equals the numeric code of \<open>from\<close> and whose \<open>currencyCodeB\<close> equals that of
  \<open>to\<close>: \<open>sell = float(rateSell)\<close> and \<open>buy = float(rateBuy)\<close>, and the
  exception of \<open>float\<close> where a cast fails. A record matches exactly when both
  of its codes are equal to the requested ones, and it is passed over exactly
  when its \<open>currencyCodeA\<close> differs, or is equal while its \<open>currencyCodeB\<close>
  differs: \<open>840/978\<close> and \<open>978/980\<close> are both passed over for \<open>840/980\<close>. In
  particular \<open>(USD, UAH)\<close> on the record \<open>{currencyCodeA: 840, currencyCodeB:
  980, rateSell: "27.5", rateBuy: "27.0"}\<close> gives \<open>SellBuy(sell=27.5, buy=27.0)\<close>.
\<close>

theorem MonoProvider_get_rate_first_record:
  "(MonoProvider_match fc tc (PDict d) = Inr True \<longleftrightarrow>
      (\<exists>a b. map_of d ''currencyCodeA'' = Some a \<and> eq_int a fc \<and>
             map_of d ''currencyCodeB'' = Some b \<and> eq_int b tc)) \<and>
   (MonoProvider_match fc tc (PDict d) = Inr False \<longleftrightarrow>
      (\<exists>a. map_of d ''currencyCodeA'' = Some a \<and>
           (\<not> eq_int a fc \<or>
            (\<exists>b. map_of d ''currencyCodeB'' = Some b \<and> \<not> eq_int b tc)))) \<and>
   (eq_int (PInt i) n \<longleftrightarrow> i = n) \<and>
   MonoProvider_match 840 980
      (PDict [(''currencyCodeA'', PInt 840), (''currencyCodeB'', PInt 978)]) = Inr False \<and>
   MonoProvider_match 840 980
      (PDict [(''currencyCodeA'', PInt 978), (''currencyCodeB'', PInt 980)]) = Inr False \<and>
   (fetched net MonoProvider_url (PList (pre @ PDict d # post)) \<and>
    map_of MonoProvider_iso_from_country_code cf = Some fc \<and>
    map_of MonoProvider_iso_from_country_code ct = Some tc \<and>
    (\<forall>x\<in>set pre. MonoProvider_match fc tc x = Inr False) \<and>
    map_of d ''currencyCodeA'' = Some a \<and> eq_int a fc \<and>
    map_of d ''currencyCodeB'' = Some b \<and> eq_int b tc \<and>
    map_of d ''rateSell'' = Some rs \<and> map_of d ''rateBuy'' = Some rb
    \<longrightarrow> fst (MonoProvider_get_rate net (MonoProvider_new cf ct)) =
          bindE (float rs) (\<lambda>s. bindE (float rb) (\<lambda>b. Inr \<lparr>sell = s, buy = b\<rparr>))) \<and>
   fst (MonoProvider_get_rate
          (serve (json_response (PList
             [PDict [(''currencyCodeA'', PInt 840), (''currencyCodeB'', PInt 980),
                     (''rateSell'', PStr ''27.5''), (''rateBuy'', PStr ''27.0'')]])))
          (MonoProvider_new ''USD'' ''UAH'')) =
     Inr \<lparr>sell = Finite (55 / 2), buy = Finite 27\<rparr>"
proof (intro conjI)
  show "MonoProvider_match fc tc (PDict d) = Inr True \<longleftrightarrow>
      (\<exists>a b. map_of d ''currencyCodeA'' = Some a \<and> eq_int a fc \<and>
             map_of d ''currencyCodeB'' = Some b \<and> eq_int b tc)"
    by (rule MonoProvider_match_PDict_True)
  show "MonoProvider_match fc tc (PDict d) = Inr False \<longleftrightarrow>
      (\<exists>a. map_of d ''currencyCodeA'' = Some a \<and>
           (\<not> eq_int a fc \<or>
            (\<exists>b. map_of d ''currencyCodeB'' = Some b \<and> \<not> eq_int b tc)))"
    by (rule MonoProvider_match_PDict_False)
  show "eq_int (PInt i) n \<longleftrightarrow> i = n"
    by simp
  show "MonoProvider_match 840 980
      (PDict [(''currencyCodeA'', PInt 840), (''currencyCodeB'', PInt 978)]) = Inr False"
    by (simp add: MonoProvider_match_def)
  show "MonoProvider_match 840 980
      (PDict [(''currencyCodeA'', PInt 978), (''currencyCodeB'', PInt 980)]) = Inr False"
    by (simp add: MonoProvider_match_def)
  show "fetched net MonoProvider_url (PList (pre @ PDict d # post)) \<and>
    map_of MonoProvider_iso_from_country_code cf = Some fc \<and>
    map_of MonoProvider_iso_from_country_code ct = Some tc \<and>
    (\<forall>x\<in>set pre. MonoProvider_match fc tc x = Inr False) \<and>
    map_of d ''currencyCodeA'' = Some a \<and> eq_int a fc \<and>
    map_of d ''currencyCodeB'' = Some b \<and> eq_int b tc \<and>
    map_of d ''rateSell'' = Some rs \<and> map_of d ''rateBuy'' = Some rb
    \<longrightarrow> fst (MonoProvider_get_rate net (MonoProvider_new cf ct)) =
          bindE (float rs) (\<lambda>s. bindE (float rb) (\<lambda>b. Inr \<lparr>sell = s, buy = b\<rparr>))"
  proof
    assume h: "fetched net MonoProvider_url (PList (pre @ PDict d # post)) \<and>
      map_of MonoProvider_iso_from_country_code cf = Some fc \<and>
      map_of MonoProvider_iso_from_country_code ct = Some tc \<and>
      (\<forall>x\<in>set pre. MonoProvider_match fc tc x = Inr False) \<and>
      map_of d ''currencyCodeA'' = Some a \<and> eq_int a fc \<and>
      map_of d ''currencyCodeB'' = Some b \<and> eq_int b tc \<and>
      map_of d ''rateSell'' = Some rs \<and> map_of d ''rateBuy'' = Some rb"
    then have run: "MonoProvider_get_rate net (MonoProvider_new cf ct) =
        MonoProvider_loop fc tc (pre @ PDict d # post) (MonoProvider_new cf ct)"
      by (intro MonoProvider_get_rate_fetched [where body = "PList (pre @ PDict d # post)"])
         (simp_all add: MonoProvider_new_def)
    from h have hit: "MonoProvider_match fc tc (PDict d) = Inr True"
      unfolding MonoProvider_match_PDict_True by blast
    from h have "MonoProvider_value (PDict d) =
        bindE (float rs) (\<lambda>s. bindE (float rb) (\<lambda>b. Inr \<lparr>sell = s, buy = b\<rparr>))"
      by (simp add: MonoProvider_value_def)
    with h hit run show "fst (MonoProvider_get_rate net (MonoProvider_new cf ct)) =
        bindE (float rs) (\<lambda>s. bindE (float rb) (\<lambda>b. Inr \<lparr>sell = s, buy = b\<rparr>))"
      by (simp add: MonoProvider_loop_first_match)
  qed
  have "MonoProvider_get_rate
          (serve (json_response (PList
             [PDict [(''currencyCodeA'', PInt 840), (''currencyCodeB'', PInt 980),
                     (''rateSell'', PStr ''27.5''), (''rateBuy'', PStr ''27.0'')]])))
          (MonoProvider_new ''USD'' ''UAH'') =
      MonoProvider_loop 840 980
        [PDict [(''currencyCodeA'', PInt 840), (''currencyCodeB'', PInt 980),
                (''rateSell'', PStr ''27.5''), (''rateBuy'', PStr ''27.0'')]]
        (MonoProvider_new ''USD'' ''UAH'')"
    by (rule MonoProvider_get_rate_fetched [where body = "PList
        [PDict [(''currencyCodeA'', PInt 840), (''currencyCodeB'', PInt 980),
                (''rateSell'', PStr ''27.5''), (''rateBuy'', PStr ''27.0'')]]"])
       (simp_all add: MonoProvider_new_def MonoProvider_iso_from_country_code_def)
  then show "fst (MonoProvider_get_rate
          (serve (json_response (PList
             [PDict [(''currencyCodeA'', PInt 840), (''currencyCodeB'', PInt 980),
                     (''rateSell'', PStr ''27.5''), (''rateBuy'', PStr ''27.0'')]])))
          (MonoProvider_new ''USD'' ''UAH'')) =
     Inr \<lparr>sell = Finite (55 / 2), buy = Finite 27\<rparr>"
    by (simp add: MonoProvider_match_def MonoProvider_value_def parse_float_27 parse_float_27_5)
qed

theorem MonoProvider_get_rate_first_record_witness:
  "MonoProvider_match 840 980
      (PDict [(''currencyCodeA'', PInt 840), (''currencyCodeB'', PInt 978),
              (''rateSell'', PStr ''28.0''), (''rateBuy'', PStr ''27.0'')]) = Inr False \<and>
   fst (MonoProvider_get_rate
          (serve (json_response (PList
             [PDict [(''currencyCodeA'', PInt 840), (''currencyCodeB'', PInt 978),
                     (''rateSell'', PStr ''28.0''), (''rateBuy'', PStr ''27.0'')],
              PDict [(''currencyCodeA'', PInt 978), (''currencyCodeB'', PInt 980),
                     (''rateSell'', PStr ''30.5''), (''rateBuy'', PStr ''29.5'')],
              PDict [(''currencyCodeA'', PInt 840), (''currencyCodeB'', PInt 980),
                     (''rateSell'', PStr ''27.5''), (''rateBuy'', PStr ''27.0'')],
              PDict [(''currencyCodeA'', PInt 840), (''currencyCodeB'', PInt 980),
                     (''rateSell'', PStr ''1''), (''rateBuy'', PStr ''2'')]])))
          (MonoProvider_new ''USD'' ''UAH'')) =
     Inr \<lparr>sell = Finite (55 / 2), buy = Finite 27\<rparr>"
proof
  note inst = MonoProvider_get_rate_first_record
    [where fc = 840 and tc = 980 and cf = "''USD''" and ct = "''UAH''"
       and a = "PInt 840" and b = "PInt 980"
       and rs = "PStr ''27.5''" and rb = "PStr ''27.0''"]
  show "MonoProvider_match 840 980
      (PDict [(''currencyCodeA'', PInt 840), (''currencyCodeB'', PInt 978),
              (''rateSell'', PStr ''28.0''), (''rateBuy'', PStr ''27.0'')]) = Inr False"
    unfolding inst [where d = "[(''currencyCodeA'', PInt 840), (''currencyCodeB'', PInt 978),
              (''rateSell'', PStr ''28.0''), (''rateBuy'', PStr ''27.0'')]",
            THEN conjunct2, THEN conjunct1]
    by simp
  have "fst (MonoProvider_get_rate
          (serve (json_response (PList
             ([PDict [(''currencyCodeA'', PInt 840), (''currencyCodeB'', PInt 978),
                      (''rateSell'', PStr ''28.0''), (''rateBuy'', PStr ''27.0'')],
               PDict [(''currencyCodeA'', PInt 978), (''currencyCodeB'', PInt 980),
                      (''rateSell'', PStr ''30.5''), (''rateBuy'', PStr ''29.5'')]] @
              PDict [(''currencyCodeA'', PInt 840), (''currencyCodeB'', PInt 980),
                     (''rateSell'', PStr ''27.5''), (''rateBuy'', PStr ''27.0'')] #
              [PDict [(''currencyCodeA'', PInt 840), (''currencyCodeB'', PInt 980),
                      (''rateSell'', PStr ''1''), (''rateBuy'', PStr ''2'')]]))))
          (MonoProvider_new ''USD'' ''UAH'')) =
      bindE (float (PStr ''27.5'')) (\<lambda>s.
      bindE (float (PStr ''27.0'')) (\<lambda>b. Inr \<lparr>sell = s, buy = b\<rparr>))"
    by (rule inst
          [where pre = "[PDict [(''currencyCodeA'', PInt 840), (''currencyCodeB'', PInt 978),
                                (''rateSell'', PStr ''28.0''), (''rateBuy'', PStr ''27.0'')],
                         PDict [(''currencyCodeA'', PInt 978), (''currencyCodeB'', PInt 980),
                                (''rateSell'', PStr ''30.5''), (''rateBuy'', PStr ''29.5'')]]"
             and d = "[(''currencyCodeA'', PInt 840), (''currencyCodeB'', PInt 980),
                       (''rateSell'', PStr ''27.5''), (''rateBuy'', PStr ''27.0'')]"
             and post = "[PDict [(''currencyCodeA'', PInt 840), (''currencyCodeB'', PInt 980),
                                 (''rateSell'', PStr ''1''), (''rateBuy'', PStr ''2'')]]",
           THEN conjunct2, THEN conjunct2, THEN conjunct2, THEN conjunct2,
           THEN conjunct2, THEN conjunct1, THEN mp])
       (simp add: MonoProvider_iso_from_country_code_def MonoProvider_match_def)
  then show "fst (MonoProvider_get_rate
          (serve (json_response (PList
             [PDict [(''currencyCodeA'', PInt 840), (''currencyCodeB'', PInt 978),
                     (''rateSell'', PStr ''28.0''), (''rateBuy'', PStr ''27.0'')],
              PDict [(''currencyCodeA'', PInt 978), (''currencyCodeB'', PInt 980),
                     (''rateSell'', PStr ''30.5''), (''rateBuy'', PStr ''29.5'')],
              PDict [(''currencyCodeA'', PInt 840), (''currencyCodeB'', PInt 980),
                     (''rateSell'', PStr ''27.5''), (''rateBuy'', PStr ''27.0'')],
              PDict [(''currencyCodeA'', PInt 840), (''currencyCodeB'', PInt 980),
                     (''rateSell'', PStr ''1''), (''rateBuy'', PStr ''2'')]])))
          (MonoProvider_new ''USD'' ''UAH'')) =
     Inr \<lparr>sell = Finite (55 / 2), buy = Finite 27\<rparr>"
    by (simp add: parse_float_27 parse_float_27_5)
qed

text \<open>
  C3. For the NationalBank variant a record matches exactly when its \<open>cc\<close> field
  is the requested \<open>from\<close>; the requested \<open>to\<close> is never compared with the data:
  on the earliest matching record the result is the same for every \<open>to\<close>. The
  pair returned has \<open>buy = float(rate)\<close> and \<open>sell = buy + 0.5\<close>. In particular
  \<open>{cc: "USD", rate: 27.0}\<close> requested as \<open>(USD, UAH)\<close> gives
  \<open>SellBuy(buy=27.0, sell=27.5)\<close>.
\<close>

theorem NationalBankProvider_get_rate_rule:
  "(NationalBankProvider_match cf (PDict d) = Inr True \<longleftrightarrow>
      map_of d ''cc'' = Some (PStr cf)) \<and>
   (fetched net NationalBankProvider_url (PList (pre @ PDict d # post)) \<and>
    (\<forall>x\<in>set pre. NationalBankProvider_match cf x = Inr False) \<and>
    map_of d ''cc'' = Some (PStr cf) \<and> map_of d ''rate'' = Some r
    \<longrightarrow> (\<forall>ct. fst (NationalBankProvider_get_rate net (NationalBankProvider_new cf ct)) =
            bindE (float r) (\<lambda>b.
            bindE (add_float r (Finite (1 / 2))) (\<lambda>sum.
            bindE (float sum) (\<lambda>s. Inr \<lparr>sell = s, buy = b\<rparr>)))) \<and>
        (\<forall>ct p. fst (NationalBankProvider_get_rate net (NationalBankProvider_new cf ct)) = Inr p
            \<longrightarrow> float r = Inr (buy p) \<and> sell p = float_add (buy p) (Finite (1 / 2)))) \<and>
   fst (NationalBankProvider_get_rate
          (serve (json_response (PList
             [PDict [(''cc'', PStr ''USD''), (''rate'', PFloat (Finite 27))]])))
          (NationalBankProvider_new ''USD'' ''UAH'')) =
     Inr \<lparr>sell = Finite (55 / 2), buy = Finite 27\<rparr>"
proof (intro conjI impI)
  show "NationalBankProvider_match cf (PDict d) = Inr True \<longleftrightarrow>
      map_of d ''cc'' = Some (PStr cf)"
    by (rule NationalBankProvider_match_PDict)
next
  assume h: "fetched net NationalBankProvider_url (PList (pre @ PDict d # post)) \<and>
    (\<forall>x\<in>set pre. NationalBankProvider_match cf x = Inr False) \<and>
    map_of d ''cc'' = Some (PStr cf) \<and> map_of d ''rate'' = Some r"
  have run: "fst (NationalBankProvider_get_rate net (NationalBankProvider_new cf ct)) =
      NationalBankProvider_value (PDict d)" for ct
  proof -
    from h have "NationalBankProvider_get_rate net (NationalBankProvider_new cf ct) =
        NationalBankProvider_loop (pre @ PDict d # post) (NationalBankProvider_new cf ct)"
      by (intro NationalBankProvider_get_rate_fetched
            [where body = "PList (pre @ PDict d # post)"]) simp_all
    with h show ?thesis
      by (simp add: NationalBankProvider_loop_first_match NationalBankProvider_new_def
          NationalBankProvider_match_PDict)
  qed
  from h have "map_of d ''rate'' = Some r"
    by blast
  then show "\<forall>ct. fst (NationalBankProvider_get_rate net (NationalBankProvider_new cf ct)) =
      bindE (float r) (\<lambda>b.
      bindE (add_float r (Finite (1 / 2))) (\<lambda>sum.
      bindE (float sum) (\<lambda>s. Inr \<lparr>sell = s, buy = b\<rparr>)))"
    by (simp only: run NationalBankProvider_value_rate) simp
  show "\<forall>ct p. fst (NationalBankProvider_get_rate net (NationalBankProvider_new cf ct)) = Inr p
      \<longrightarrow> float r = Inr (buy p) \<and> sell p = float_add (buy p) (Finite (1 / 2))"
  proof (intro allI impI)
    fix ct p
    assume "fst (NationalBankProvider_get_rate net (NationalBankProvider_new cf ct)) = Inr p"
    then have "NationalBankProvider_value (PDict d) = Inr p"
      by (simp only: run)
    moreover from h have "map_of d ''rate'' = Some r"
      by blast
    ultimately show "float r = Inr (buy p) \<and> sell p = float_add (buy p) (Finite (1 / 2))"
      by (rule NationalBankProvider_value_markup [rotated])
  qed
next
  have "NationalBankProvider_get_rate
          (serve (json_response (PList
             [PDict [(''cc'', PStr ''USD''), (''rate'', PFloat (Finite 27))]])))
          (NationalBankProvider_new ''USD'' ''UAH'') =
      NationalBankProvider_loop
        [PDict [(''cc'', PStr ''USD''), (''rate'', PFloat (Finite 27))]]
        (NationalBankProvider_new ''USD'' ''UAH'')"
    by (rule NationalBankProvider_get_rate_fetched [where body = "PList
          [PDict [(''cc'', PStr ''USD''), (''rate'', PFloat (Finite 27))]]"]) simp_all
  then show "fst (NationalBankProvider_get_rate
          (serve (json_response (PList
             [PDict [(''cc'', PStr ''USD''), (''rate'', PFloat (Finite 27))]])))
          (NationalBankProvider_new ''USD'' ''UAH'')) =
     Inr \<lparr>sell = Finite (55 / 2), buy = Finite 27\<rparr>"
    by (simp add: NationalBankProvider_new_def NationalBankProvider_match_def
        NationalBankProvider_value_def round64_27_5)
qed

theorem NationalBankProvider_get_rate_rule_witness:
  "fst (NationalBankProvider_get_rate
          (serve (json_response (PList
             [PDict [(''cc'', PStr ''USD''), (''rate'', PFloat (Finite 27))],
              PDict [(''cc'', PStr ''EUR''), (''rate'', PInt 30)],
              PDict [(''cc'', PStr ''EUR''), (''rate'', PInt 1)]])))
          (NationalBankProvider_new ''EUR'' ''GBP'')) =
     Inr \<lparr>sell = Finite (61 / 2), buy = Finite 30\<rparr>"
proof -
  note rule = NationalBankProvider_get_rate_rule
    [THEN conjunct2, THEN conjunct1,
     of "serve (json_response (PList
             [PDict [(''cc'', PStr ''USD''), (''rate'', PFloat (Finite 27))],
              PDict [(''cc'', PStr ''EUR''), (''rate'', PInt 30)],
              PDict [(''cc'', PStr ''EUR''), (''rate'', PInt 1)]]))"
        "[PDict [(''cc'', PStr ''USD''), (''rate'', PFloat (Finite 27))]]"
        "[(''cc'', PStr ''EUR''), (''rate'', PInt 30)]"
        "[PDict [(''cc'', PStr ''EUR''), (''rate'', PInt 1)]]"
        "''EUR''" "PInt 30",
     THEN mp, THEN conjunct1, THEN spec, of "''GBP''"]
  have "fst (NationalBankProvider_get_rate
          (serve (json_response (PList
             [PDict [(''cc'', PStr ''USD''), (''rate'', PFloat (Finite 27))],
              PDict [(''cc'', PStr ''EUR''), (''rate'', PInt 30)],
              PDict [(''cc'', PStr ''EUR''), (''rate'', PInt 1)]])))
          (NationalBankProvider_new ''EUR'' ''GBP'')) =
      bindE (float (PInt 30)) (\<lambda>b.
      bindE (add_float (PInt 30) (Finite (1 / 2))) (\<lambda>sum.
      bindE (float sum) (\<lambda>s. Inr \<lparr>sell = s, buy = b\<rparr>)))"
    by (rule rule) (simp add: NationalBankProvider_match_def)
  then show ?thesis
    by (simp add: int_to_float_30 round64_30_5)
qed

text \<open>
  C4. For the Privatbank variant a record matches exactly when its \<open>ccy\<close> field is
  the str \<open>from\<close> and its \<open>base_ccy\<close> field is the str \<open>to\<close>, with no case
  folding (\<open>"usd"\<close> does not match \<open>"USD"\<close>); on the earliest match \<open>get_rate\<close>
  gives \<open>buy = float(buy field)\<close> and \<open>sell = float(sale field)\<close>, with nothing
  done to the values after the cast.
\<close>

theorem PrivatbankProvider_get_rate_rule:
  "(PrivatbankProvider_match cf ct (PDict d) = Inr True \<longleftrightarrow>
      map_of d ''ccy'' = Some (PStr cf) \<and> map_of d ''base_ccy'' = Some (PStr ct)) \<and>
   PrivatbankProvider_match ''USD'' ''UAH''
      (PDict [(''ccy'', PStr ''usd''), (''base_ccy'', PStr ''UAH'')]) = Inr False \<and>
   (fetched net PrivatbankProvider_url (PList (pre @ PDict d # post)) \<and>
    (\<forall>x\<in>set pre. PrivatbankProvider_match cf ct x = Inr False) \<and>
    map_of d ''ccy'' = Some (PStr cf) \<and> map_of d ''base_ccy'' = Some (PStr ct) \<and>
    map_of d ''buy'' = Some rb \<and> map_of d ''sale'' = Some rs
    \<longrightarrow> fst (PrivatbankProvider_get_rate net (PrivatbankProvider_new cf ct)) =
          bindE (float rb) (\<lambda>b. bindE (float rs) (\<lambda>s. Inr \<lparr>sell = s, buy = b\<rparr>)))"
proof (intro conjI impI)
  show "PrivatbankProvider_match cf ct (PDict d) = Inr True \<longleftrightarrow>
      map_of d ''ccy'' = Some (PStr cf) \<and> map_of d ''base_ccy'' = Some (PStr ct)"
    by (rule PrivatbankProvider_match_PDict)
next
  show "PrivatbankProvider_match ''USD'' ''UAH''
      (PDict [(''ccy'', PStr ''usd''), (''base_ccy'', PStr ''UAH'')]) = Inr False"
    by (simp add: PrivatbankProvider_match_def)
next
  assume h: "fetched net PrivatbankProvider_url (PList (pre @ PDict d # post)) \<and>
    (\<forall>x\<in>set pre. PrivatbankProvider_match cf ct x = Inr False) \<and>
    map_of d ''ccy'' = Some (PStr cf) \<and> map_of d ''base_ccy'' = Some (PStr ct) \<and>
    map_of d ''buy'' = Some rb \<and> map_of d ''sale'' = Some rs"
  then have "PrivatbankProvider_get_rate net (PrivatbankProvider_new cf ct) =
      PrivatbankProvider_loop (pre @ PDict d # post) (PrivatbankProvider_new cf ct)"
    by (intro PrivatbankProvider_get_rate_fetched
          [where body = "PList (pre @ PDict d # post)"]) simp_all
  with h have "fst (PrivatbankProvider_get_rate net (PrivatbankProvider_new cf ct)) =
      PrivatbankProvider_value (PDict d)"
    by (simp add: PrivatbankProvider_loop_first_match PrivatbankProvider_new_def
        PrivatbankProvider_match_PDict)
  with h show "fst (PrivatbankProvider_get_rate net (PrivatbankProvider_new cf ct)) =
      bindE (float rb) (\<lambda>b. bindE (float rs) (\<lambda>s. Inr \<lparr>sell = s, buy = b\<rparr>))"
    by (simp add: PrivatbankProvider_value_def)
qed

theorem PrivatbankProvider_get_rate_rule_witness:
  "fst (PrivatbankProvider_get_rate
          (serve (json_response (PList
             [PDict [(''ccy'', PStr ''usd''), (''base_ccy'', PStr ''UAH''),
                     (''buy'', PStr ''1''), (''sale'', PStr ''2'')],
              PDict [(''ccy'', PStr ''USD''), (''base_ccy'', PStr ''UAH''),
                     (''buy'', PStr ''27.0''), (''sale'', PStr ''27.5'')]])))
          (PrivatbankProvider_new ''USD'' ''UAH'')) =
     Inr \<lparr>sell = Finite (55 / 2), buy = Finite 27\<rparr>"
proof -
  note rule = PrivatbankProvider_get_rate_rule
    [THEN conjunct2, THEN conjunct2,
     of "serve (json_response (PList
             [PDict [(''ccy'', PStr ''usd''), (''base_ccy'', PStr ''UAH''),
                     (''buy'', PStr ''1''), (''sale'', PStr ''2'')],
              PDict [(''ccy'', PStr ''USD''), (''base_ccy'', PStr ''UAH''),
                     (''buy'', PStr ''27.0''), (''sale'', PStr ''27.5'')]]))"
        "[PDict [(''ccy'', PStr ''usd''), (''base_ccy'', PStr ''UAH''),
                 (''buy'', PStr ''1''), (''sale'', PStr ''2'')]]"
        "[(''ccy'', PStr ''USD''), (''base_ccy'', PStr ''UAH''),
          (''buy'', PStr ''27.0''), (''sale'', PStr ''27.5'')]"
        "[]" "''USD''" "''UAH''" "PStr ''27.0''" "PStr ''27.5''",
     THEN mp]
  have "fst (PrivatbankProvider_get_rate
          (serve (json_response (PList
             [PDict [(''ccy'', PStr ''usd''), (''base_ccy'', PStr ''UAH''),
                     (''buy'', PStr ''1''), (''sale'', PStr ''2'')],
              PDict [(''ccy'', PStr ''USD''), (''base_ccy'', PStr ''UAH''),
                     (''buy'', PStr ''27.0''), (''sale'', PStr ''27.5'')]])))
          (PrivatbankProvider_new ''USD'' ''UAH'')) =
      bindE (float (PStr ''27.0'')) (\<lambda>b.
      bindE (float (PStr ''27.5'')) (\<lambda>s. Inr \<lparr>sell = s, buy = b\<rparr>))"
    by (rule rule) (simp add: PrivatbankProvider_match_def)
  then show ?thesis
    by (simp add: parse_float_27 parse_float_27_5)
qed

text \<open>
  C5, as the code has it. For the VKurse variant, after a successful fetch of a
  JSON object and with \<open>currency_from\<close> in the table \<open>{USD: "Dollar", EUR:
  "Euro"}\<close>, \<open>get_rate\<close> raises \<open>RateNotFound\<close> exactly when the object has no
  value under the translated name or has a false one there (\<open>None\<close>, \<open>False\<close>,
  zero, an empty str, list or dict), and then with the usual message. A
  \<open>currency_from\<close> absent from the table does not reach that lookup: the table
  lookup raises \<open>KeyError\<close>.
\<close>

theorem VKurseProvider_RateNotFound_iff:
  "(fetched net VKurseProvider_url (PDict d) \<and>
    map_of VKurseProvider_country_code cf = Some code
    \<longrightarrow> ((\<exists>m. fst (VKurseProvider_get_rate net (VKurseProvider_new cf ct)) =
               Inl (RateNotFound m)) \<longleftrightarrow>
         (case map_of d code of None \<Rightarrow> True | Some v \<Rightarrow> \<not> truthy v)) \<and>
        ((case map_of d code of None \<Rightarrow> True | Some v \<Rightarrow> \<not> truthy v)
         \<longrightarrow> fst (VKurseProvider_get_rate net (VKurseProvider_new cf ct)) =
             Inl (RateNotFound
               (''Cannot find rate from '' @ cf @ '' to '' @ ct @ '' in provider VKurse'')))) \<and>
   (net VKurseProvider_url = Inr response \<and> ok response \<and>
    map_of VKurseProvider_country_code cf = None
    \<longrightarrow> fst (VKurseProvider_get_rate net (VKurseProvider_new cf ct)) = Inl (KeyError cf))"
proof (intro conjI impI)
  assume h: "fetched net VKurseProvider_url (PDict d) \<and>
    map_of VKurseProvider_country_code cf = Some code"
  then have run: "fst (VKurseProvider_get_rate net (VKurseProvider_new cf ct)) =
     (case map_of d code of
        None \<Rightarrow> Inl (RateNotFound
          (''Cannot find rate from '' @ cf @ '' to '' @ ct @ '' in provider VKurse''))
      | Some v \<Rightarrow>
          if truthy v then VKurseProvider_value v
          else Inl (RateNotFound
            (''Cannot find rate from '' @ cf @ '' to '' @ ct @ '' in provider VKurse'')))"
    by (intro VKurseProvider_get_rate_object) simp_all
  show "(\<exists>m. fst (VKurseProvider_get_rate net (VKurseProvider_new cf ct)) =
            Inl (RateNotFound m)) \<longleftrightarrow>
      (case map_of d code of None \<Rightarrow> True | Some v \<Rightarrow> \<not> truthy v)"
    unfolding run
    by (simp add: VKurseProvider_value_not_RateNotFound split: option.splits)
  assume "case map_of d code of None \<Rightarrow> True | Some v \<Rightarrow> \<not> truthy v"
  then show "fst (VKurseProvider_get_rate net (VKurseProvider_new cf ct)) =
      Inl (RateNotFound
        (''Cannot find rate from '' @ cf @ '' to '' @ ct @ '' in provider VKurse''))"
    unfolding run by (simp split: option.splits)
next
  assume "net VKurseProvider_url = Inr response \<and> ok response \<and>
    map_of VKurseProvider_country_code cf = None"
  then show "fst (VKurseProvider_get_rate net (VKurseProvider_new cf ct)) = Inl (KeyError cf)"
    by (simp add: VKurseProvider_get_rate_answered VKurseProvider_new_def)
qed

theorem VKurseProvider_RateNotFound_iff_witness:
  "fst (VKurseProvider_get_rate
          (serve (json_response (PDict
             [(''Dollar'', PDict [(''sale'', PStr ''27.5''), (''buy'', PStr ''27.0'')])])))
          (VKurseProvider_new ''EUR'' ''UAH'')) =
     Inl (RateNotFound ''Cannot find rate from EUR to UAH in provider VKurse'') \<and>
   fst (VKurseProvider_get_rate
          (serve (json_response (PDict [(''Euro'', PNone)])))
          (VKurseProvider_new ''EUR'' ''UAH'')) =
     Inl (RateNotFound ''Cannot find rate from EUR to UAH in provider VKurse'') \<and>
   fst (VKurseProvider_get_rate
          (serve (json_response (PDict [])))
          (VKurseProvider_new ''UAH'' ''USD'')) = Inl (KeyError ''UAH'')"
proof (intro conjI)
  show "fst (VKurseProvider_get_rate
          (serve (json_response (PDict
             [(''Dollar'', PDict [(''sale'', PStr ''27.5''), (''buy'', PStr ''27.0'')])])))
          (VKurseProvider_new ''EUR'' ''UAH'')) =
     Inl (RateNotFound ''Cannot find rate from EUR to UAH in provider VKurse'')"
    using VKurseProvider_RateNotFound_iff
      [where code = "''Euro''" and cf = "''EUR''" and ct = "''UAH''"
         and d = "[(''Dollar'', PDict [(''sale'', PStr ''27.5''), (''buy'', PStr ''27.0'')])]"
         and net = "serve (json_response (PDict
             [(''Dollar'', PDict [(''sale'', PStr ''27.5''), (''buy'', PStr ''27.0'')])]))",
       THEN conjunct1, THEN mp, THEN conjunct2, THEN mp]
    by (simp add: VKurseProvider_country_code_def)
  show "fst (VKurseProvider_get_rate
          (serve (json_response (PDict [(''Euro'', PNone)])))
          (VKurseProvider_new ''EUR'' ''UAH'')) =
     Inl (RateNotFound ''Cannot find rate from EUR to UAH in provider VKurse'')"
    using VKurseProvider_RateNotFound_iff
      [where code = "''Euro''" and cf = "''EUR''" and ct = "''UAH''"
         and d = "[(''Euro'', PNone)]"
         and net = "serve (json_response (PDict [(''Euro'', PNone)]))",
       THEN conjunct1, THEN mp, THEN conjunct2, THEN mp]
    by (simp add: VKurseProvider_country_code_def)
  show "fst (VKurseProvider_get_rate
          (serve (json_response (PDict [])))
          (VKurseProvider_new ''UAH'' ''USD'')) = Inl (KeyError ''UAH'')"
    by (rule VKurseProvider_RateNotFound_iff
          [where response = "json_response (PDict [])", THEN conjunct2, THEN mp])
       (simp add: serve_def VKurseProvider_country_code_def)
qed

text \<open>
  C5 as stated fails on two inputs: with \<open>currency_from = "GBP"\<close> the call raises
  \<open>KeyError\<close>, not \<open>RateNotFound\<close>; and with the key \<open>"Dollar"\<close> present but
  holding an empty object, the call raises \<open>RateNotFound\<close> although the key is
  there.
\<close>

theorem VKurseProvider_RateNotFound_counterexample:
  "fst (VKurseProvider_get_rate
          (serve (json_response (PDict
             [(''Dollar'', PDict [(''sale'', PStr ''27.5''), (''buy'', PStr ''27.0'')])])))
          (VKurseProvider_new ''GBP'' ''UAH'')) = Inl (KeyError ''GBP'') \<and>
   map_of [(''Dollar'', PDict [])] ''Dollar'' = Some (PDict []) \<and>
   fst (VKurseProvider_get_rate
          (serve (json_response (PDict [(''Dollar'', PDict [])])))
          (VKurseProvider_new ''USD'' ''UAH'')) =
     Inl (RateNotFound ''Cannot find rate from USD to UAH in provider VKurse'')"
proof (intro conjI)
  show "fst (VKurseProvider_get_rate
          (serve (json_response (PDict
             [(''Dollar'', PDict [(''sale'', PStr ''27.5''), (''buy'', PStr ''27.0'')])])))
          (VKurseProvider_new ''GBP'' ''UAH'')) = Inl (KeyError ''GBP'')"
    by (simp add: VKurseProvider_get_rate_answered [where response = "json_response (PDict
             [(''Dollar'', PDict [(''sale'', PStr ''27.5''), (''buy'', PStr ''27.0'')])])"]
        serve_def VKurseProvider_new_def VKurseProvider_country_code_def)
  show "map_of [(''Dollar'', PDict [])] ''Dollar'' = Some (PDict [])"
    by simp
  show "fst (VKurseProvider_get_rate
          (serve (json_response (PDict [(''Dollar'', PDict [])])))
          (VKurseProvider_new ''USD'' ''UAH'')) =
     Inl (RateNotFound ''Cannot find rate from USD to UAH in provider VKurse'')"
    by (simp add: VKurseProvider_get_rate_object [where code = "''Dollar''"
          and d = "[(''Dollar'', PDict [])]"] VKurseProvider_country_code_def)
qed

text \<open>
  C6. For the Mono and VKurse variants, a requested currency code that is not in
  the variant's table (\<open>from\<close> or \<open>to\<close> for Mono, \<open>from\<close> for VKurse; \<open>"GBP"\<close>
  for Mono is one) makes \<open>get_rate\<close> fail with the \<open>KeyError\<close> of the table
  lookup, carrying the code, once the response has passed the status check. On
  any network at all the call then neither returns a pair nor raises
  \<open>RateNotFound\<close>.
\<close>

theorem unmapped_currency_raises_KeyError:
  "(net MonoProvider_url = Inr response \<and> ok response \<and>
    map_of MonoProvider_iso_from_country_code cf = None
    \<longrightarrow> fst (MonoProvider_get_rate net (MonoProvider_new cf ct)) = Inl (KeyError cf)) \<and>
   (net MonoProvider_url = Inr response \<and> ok response \<and>
    map_of MonoProvider_iso_from_country_code cf = Some fc \<and>
    map_of MonoProvider_iso_from_country_code ct = None
    \<longrightarrow> fst (MonoProvider_get_rate net (MonoProvider_new cf ct)) = Inl (KeyError ct)) \<and>
   (net VKurseProvider_url = Inr response \<and> ok response \<and>
    map_of VKurseProvider_country_code cf = None
    \<longrightarrow> fst (VKurseProvider_get_rate net (VKurseProvider_new cf ct)) = Inl (KeyError cf)) \<and>
   (map_of MonoProvider_iso_from_country_code cf = None \<or>
    map_of MonoProvider_iso_from_country_code ct = None
    \<longrightarrow> (\<forall>p. fst (MonoProvider_get_rate net (MonoProvider_new cf ct)) \<noteq> Inr p) \<and>
        (\<forall>m. fst (MonoProvider_get_rate net (MonoProvider_new cf ct)) \<noteq>
               Inl (RateNotFound m))) \<and>
   (map_of VKurseProvider_country_code cf = None
    \<longrightarrow> (\<forall>p. fst (VKurseProvider_get_rate net (VKurseProvider_new cf ct)) \<noteq> Inr p) \<and>
        (\<forall>m. fst (VKurseProvider_get_rate net (VKurseProvider_new cf ct)) \<noteq>
               Inl (RateNotFound m))) \<and>
   fst (MonoProvider_get_rate
          (serve (json_response (PList
             [PDict [(''currencyCodeA'', PInt 826), (''currencyCodeB'', PInt 980),
                     (''rateSell'', PFloat (Finite 50)), (''rateBuy'', PFloat (Finite 49))]])))
          (MonoProvider_new ''GBP'' ''UAH'')) = Inl (KeyError ''GBP'')"
proof (intro conjI impI)
  assume "net MonoProvider_url = Inr response \<and> ok response \<and>
    map_of MonoProvider_iso_from_country_code cf = None"
  then show "fst (MonoProvider_get_rate net (MonoProvider_new cf ct)) = Inl (KeyError cf)"
    by (simp add: MonoProvider_get_rate_answered MonoProvider_new_def)
next
  assume "net MonoProvider_url = Inr response \<and> ok response \<and>
    map_of MonoProvider_iso_from_country_code cf = Some fc \<and>
    map_of MonoProvider_iso_from_country_code ct = None"
  then show "fst (MonoProvider_get_rate net (MonoProvider_new cf ct)) = Inl (KeyError ct)"
    by (simp add: MonoProvider_get_rate_answered MonoProvider_new_def)
next
  assume "net VKurseProvider_url = Inr response \<and> ok response \<and>
    map_of VKurseProvider_country_code cf = None"
  then show "fst (VKurseProvider_get_rate net (VKurseProvider_new cf ct)) = Inl (KeyError cf)"
    by (simp add: VKurseProvider_get_rate_answered VKurseProvider_new_def)
next
  assume "map_of MonoProvider_iso_from_country_code cf = None \<or>
    map_of MonoProvider_iso_from_country_code ct = None"
  then have "map_of (iso_from_country_code (MonoProvider_new cf ct))
        (currency_from (MonoProvider_new cf ct)) = None \<or>
      map_of (iso_from_country_code (MonoProvider_new cf ct))
        (currency_to (MonoProvider_new cf ct)) = None"
    by (simp add: MonoProvider_new_def)
  then have both: "(\<forall>p. fst (MonoProvider_get_rate net (MonoProvider_new cf ct)) \<noteq> Inr p) \<and>
      (\<forall>m. fst (MonoProvider_get_rate net (MonoProvider_new cf ct)) \<noteq> Inl (RateNotFound m))"
    by (rule MonoProvider_get_rate_unmapped)
  from both show "\<forall>p. fst (MonoProvider_get_rate net (MonoProvider_new cf ct)) \<noteq> Inr p"
    by (rule conjunct1)
  from both show "\<forall>m. fst (MonoProvider_get_rate net (MonoProvider_new cf ct)) \<noteq>
      Inl (RateNotFound m)"
    by (rule conjunct2)
next
  assume "map_of VKurseProvider_country_code cf = None"
  then have "map_of (country_code (VKurseProvider_new cf ct))
      (currency_from (VKurseProvider_new cf ct)) = None"
    by (simp add: VKurseProvider_new_def)
  then have both: "(\<forall>p. fst (VKurseProvider_get_rate net (VKurseProvider_new cf ct)) \<noteq> Inr p) \<and>
      (\<forall>m. fst (VKurseProvider_get_rate net (VKurseProvider_new cf ct)) \<noteq>
         Inl (RateNotFound m))"
    by (rule VKurseProvider_get_rate_unmapped)
  from both show "\<forall>p. fst (VKurseProvider_get_rate net (VKurseProvider_new cf ct)) \<noteq> Inr p"
    by (rule conjunct1)
  from both show "\<forall>m. fst (VKurseProvider_get_rate net (VKurseProvider_new cf ct)) \<noteq>
      Inl (RateNotFound m)"
    by (rule conjunct2)
next
  have "ok (json_response v)" for v
    by (simp add: json_response_def ok_def raise_for_status_def)
  then show "fst (MonoProvider_get_rate
          (serve (json_response (PList
             [PDict [(''currencyCodeA'', PInt 826), (''currencyCodeB'', PInt 980),
                     (''rateSell'', PFloat (Finite 50)), (''rateBuy'', PFloat (Finite 49))]])))
          (MonoProvider_new ''GBP'' ''UAH'')) = Inl (KeyError ''GBP'')"
    by (simp add: MonoProvider_get_rate_answered [where response = "json_response (PList
             [PDict [(''currencyCodeA'', PInt 826), (''currencyCodeB'', PInt 980),
                     (''rateSell'', PFloat (Finite 50)), (''rateBuy'', PFloat (Finite 49))]])"]
        serve_def MonoProvider_new_def MonoProvider_iso_from_country_code_def)
qed

theorem unmapped_currency_raises_KeyError_witness:
  "fst (MonoProvider_get_rate (serve (json_response (PList mono_feed)))
          (MonoProvider_new ''PLN'' ''UAH'')) = Inl (KeyError ''PLN'') \<and>
   fst (MonoProvider_get_rate (serve (json_response (PList mono_feed)))
          (MonoProvider_new ''USD'' ''PLN'')) = Inl (KeyError ''PLN'') \<and>
   fst (VKurseProvider_get_rate (serve (json_response (PDict [])))
          (VKurseProvider_new ''UAH'' ''USD'')) = Inl (KeyError ''UAH'') \<and>
   fst (MonoProvider_get_rate (serve \<lparr>status_code = 200, json_body = None\<rparr>)
          (MonoProvider_new ''USD'' ''PLN'')) \<noteq>
     Inl (RateNotFound ''Cannot find rate from USD to PLN in provider monobank'') \<and>
   fst (VKurseProvider_get_rate (serve \<lparr>status_code = 200, json_body = None\<rparr>)
          (VKurseProvider_new ''UAH'' ''USD'')) \<noteq>
     Inl (RateNotFound ''Cannot find rate from UAH to USD in provider VKurse'')"
proof (intro conjI)
  show "fst (MonoProvider_get_rate (serve (json_response (PList mono_feed)))
          (MonoProvider_new ''PLN'' ''UAH'')) = Inl (KeyError ''PLN'')"
    by (rule unmapped_currency_raises_KeyError
          [where response = "json_response (PList mono_feed)", THEN conjunct1, THEN mp])
       (simp add: serve_def MonoProvider_iso_from_country_code_def)
  show "fst (MonoProvider_get_rate (serve (json_response (PList mono_feed)))
          (MonoProvider_new ''USD'' ''PLN'')) = Inl (KeyError ''PLN'')"
    by (rule unmapped_currency_raises_KeyError
          [where response = "json_response (PList mono_feed)" and fc = 840,
           THEN conjunct2, THEN conjunct1, THEN mp])
       (simp add: serve_def MonoProvider_iso_from_country_code_def)
  show "fst (VKurseProvider_get_rate (serve (json_response (PDict [])))
          (VKurseProvider_new ''UAH'' ''USD'')) = Inl (KeyError ''UAH'')"
    by (rule unmapped_currency_raises_KeyError
          [where response = "json_response (PDict [])",
           THEN conjunct2, THEN conjunct2, THEN conjunct1, THEN mp])
       (simp add: serve_def VKurseProvider_country_code_def)
  show "fst (MonoProvider_get_rate (serve \<lparr>status_code = 200, json_body = None\<rparr>)
          (MonoProvider_new ''USD'' ''PLN'')) \<noteq>
     Inl (RateNotFound ''Cannot find rate from USD to PLN in provider monobank'')"
    by (rule unmapped_currency_raises_KeyError
          [THEN conjunct2, THEN conjunct2, THEN conjunct2, THEN conjunct1, THEN mp,
           THEN conjunct2, THEN spec])
       (simp add: MonoProvider_iso_from_country_code_def)
  show "fst (VKurseProvider_get_rate (serve \<lparr>status_code = 200, json_body = None\<rparr>)
          (VKurseProvider_new ''UAH'' ''USD'')) \<noteq>
     Inl (RateNotFound ''Cannot find rate from UAH to USD in provider VKurse'')"
    by (rule unmapped_currency_raises_KeyError
          [THEN conjunct2, THEN conjunct2, THEN conjunct2, THEN conjunct2, THEN conjunct1,
           THEN mp, THEN conjunct2, THEN spec])
       (simp add: VKurseProvider_country_code_def)
qed

text \<open>
  C7, as the code has it. For every variant, a response with a client-error or
  server-error status, from 400 to 599, makes \<open>get_rate\<close> fail with the
  \<open>HTTPError\<close> of \<open>raise_for_status\<close>, unchanged, and the body is never decoded:
  the result is the \<open>HTTPError\<close> of that status whatever the object's currencies
  are, and it is the same whatever \<open>json()\<close> would yield, also for a body that
  would not decode. These are the statuses for which the response is not \<open>ok\<close>.
\<close>

theorem non_success_status_raises_HTTPError:
  "(\<not> ok response \<longleftrightarrow> 400 \<le> status_code response \<and> status_code response < 600) \<and>
   (net MonoProvider_url = Inr response \<and> \<not> ok response
    \<longrightarrow> fst (MonoProvider_get_rate net m) = Inl (HTTPError (status_code response))) \<and>
   (net PrivatbankProvider_url = Inr response \<and> \<not> ok response
    \<longrightarrow> fst (PrivatbankProvider_get_rate net p) = Inl (HTTPError (status_code response))) \<and>
   (net NationalBankProvider_url = Inr response \<and> \<not> ok response
    \<longrightarrow> fst (NationalBankProvider_get_rate net n) = Inl (HTTPError (status_code response))) \<and>
   (net VKurseProvider_url = Inr response \<and> \<not> ok response
    \<longrightarrow> fst (VKurseProvider_get_rate net v) = Inl (HTTPError (status_code response))) \<and>
   (\<not> ok response
    \<longrightarrow> fst (MonoProvider_get_rate (serve (response\<lparr>json_body := j\<rparr>)) m) =
          fst (MonoProvider_get_rate (serve response) m) \<and>
        fst (PrivatbankProvider_get_rate (serve (response\<lparr>json_body := j\<rparr>)) p) =
          fst (PrivatbankProvider_get_rate (serve response) p) \<and>
        fst (NationalBankProvider_get_rate (serve (response\<lparr>json_body := j\<rparr>)) n) =
          fst (NationalBankProvider_get_rate (serve response) n) \<and>
        fst (VKurseProvider_get_rate (serve (response\<lparr>json_body := j\<rparr>)) v) =
          fst (VKurseProvider_get_rate (serve response) v))"
proof (intro conjI impI)
  show "\<not> ok response \<longleftrightarrow> 400 \<le> status_code response \<and> status_code response < 600"
    by (rule not_ok_iff)
next
  assume "net MonoProvider_url = Inr response \<and> \<not> ok response"
  then show "fst (MonoProvider_get_rate net m) = Inl (HTTPError (status_code response))"
    by (simp add: MonoProvider_get_rate_not_ok)
next
  assume "net PrivatbankProvider_url = Inr response \<and> \<not> ok response"
  then show "fst (PrivatbankProvider_get_rate net p) = Inl (HTTPError (status_code response))"
    by (simp add: PrivatbankProvider_get_rate_not_ok)
next
  assume "net NationalBankProvider_url = Inr response \<and> \<not> ok response"
  then show "fst (NationalBankProvider_get_rate net n) = Inl (HTTPError (status_code response))"
    by (simp add: NationalBankProvider_get_rate_not_ok)
next
  assume "net VKurseProvider_url = Inr response \<and> \<not> ok response"
  then show "fst (VKurseProvider_get_rate net v) = Inl (HTTPError (status_code response))"
    by (simp add: VKurseProvider_get_rate_not_ok)
next
  assume bad: "\<not> ok response"
  then have bad': "\<not> ok (response\<lparr>json_body := j\<rparr>)"
    by simp
  from bad bad' show "fst (MonoProvider_get_rate (serve (response\<lparr>json_body := j\<rparr>)) m) =
      fst (MonoProvider_get_rate (serve response) m)"
    by (simp add: MonoProvider_get_rate_not_ok serve_def)
  from bad bad' show "fst (PrivatbankProvider_get_rate (serve (response\<lparr>json_body := j\<rparr>)) p) =
      fst (PrivatbankProvider_get_rate (serve response) p)"
    by (simp add: PrivatbankProvider_get_rate_not_ok serve_def)
  from bad bad' show "fst (NationalBankProvider_get_rate (serve (response\<lparr>json_body := j\<rparr>)) n) =
      fst (NationalBankProvider_get_rate (serve response) n)"
    by (simp add: NationalBankProvider_get_rate_not_ok serve_def)
  from bad bad' show "fst (VKurseProvider_get_rate (serve (response\<lparr>json_body := j\<rparr>)) v) =
      fst (VKurseProvider_get_rate (serve response) v)"
    by (simp add: VKurseProvider_get_rate_not_ok serve_def)
qed

theorem non_success_status_raises_HTTPError_witness:
  "fst (MonoProvider_get_rate (serve \<lparr>status_code = 404, json_body = Some (PList mono_feed)\<rparr>)
          (MonoProvider_new ''USD'' ''UAH'')) = Inl (HTTPError 404) \<and>
   fst (PrivatbankProvider_get_rate (serve \<lparr>status_code = 500, json_body = None\<rparr>)
          (PrivatbankProvider_new ''USD'' ''UAH'')) = Inl (HTTPError 500) \<and>
   fst (NationalBankProvider_get_rate
          (serve \<lparr>status_code = 503, json_body = Some (PList national_feed)\<rparr>)
          (NationalBankProvider_new ''USD'' ''UAH'')) = Inl (HTTPError 503) \<and>
   fst (VKurseProvider_get_rate (serve \<lparr>status_code = 403, json_body = None\<rparr>)
          (VKurseProvider_new ''GBP'' ''UAH'')) = Inl (HTTPError 403)"
proof -
  note rule = non_success_status_raises_HTTPError [THEN conjunct2]
  have "fst (MonoProvider_get_rate (serve \<lparr>status_code = 404, json_body = Some (PList mono_feed)\<rparr>)
          (MonoProvider_new ''USD'' ''UAH'')) =
      Inl (HTTPError (status_code \<lparr>status_code = 404, json_body = Some (PList mono_feed)\<rparr>))"
    by (rule rule [THEN conjunct1, THEN mp])
       (simp add: serve_def ok_def raise_for_status_def)
  moreover have "fst (PrivatbankProvider_get_rate (serve \<lparr>status_code = 500, json_body = None\<rparr>)
          (PrivatbankProvider_new ''USD'' ''UAH'')) =
      Inl (HTTPError (status_code \<lparr>status_code = 500, json_body = None\<rparr>))"
    by (rule rule [THEN conjunct2, THEN conjunct1, THEN mp])
       (simp add: serve_def ok_def raise_for_status_def)
  moreover have "fst (NationalBankProvider_get_rate
          (serve \<lparr>status_code = 503, json_body = Some (PList national_feed)\<rparr>)
          (NationalBankProvider_new ''USD'' ''UAH'')) =
      Inl (HTTPError (status_code \<lparr>status_code = 503, json_body = Some (PList national_feed)\<rparr>))"
    by (rule rule [THEN conjunct2, THEN conjunct2, THEN conjunct1, THEN mp])
       (simp add: serve_def ok_def raise_for_status_def)
  moreover have "fst (VKurseProvider_get_rate (serve \<lparr>status_code = 403, json_body = None\<rparr>)
          (VKurseProvider_new ''GBP'' ''UAH'')) =
      Inl (HTTPError (status_code \<lparr>status_code = 403, json_body = None\<rparr>))"
    by (rule rule [THEN conjunct2, THEN conjunct2, THEN conjunct2, THEN conjunct1, THEN mp])
       (simp add: serve_def ok_def raise_for_status_def)
  ultimately show ?thesis
    by simp
qed

text \<open>
  C7 as stated fails for a status that is not a success and is outside 400 to 599:
  with status 304 the check passes, the body is decoded and a pair is returned.
\<close>

theorem non_success_status_counterexample:
  "fst (NationalBankProvider_get_rate
          (serve \<lparr>status_code = 304, json_body = Some (PList
             [PDict [(''cc'', PStr ''USD''), (''rate'', PFloat (Finite 27))]])\<rparr>)
          (NationalBankProvider_new ''USD'' ''UAH'')) =
     Inr \<lparr>sell = Finite (55 / 2), buy = Finite 27\<rparr>"
proof -
  have "NationalBankProvider_get_rate
          (serve \<lparr>status_code = 304, json_body = Some (PList
             [PDict [(''cc'', PStr ''USD''), (''rate'', PFloat (Finite 27))]])\<rparr>)
          (NationalBankProvider_new ''USD'' ''UAH'') =
      NationalBankProvider_loop
        [PDict [(''cc'', PStr ''USD''), (''rate'', PFloat (Finite 27))]]
        (NationalBankProvider_new ''USD'' ''UAH'')"
    by (rule NationalBankProvider_get_rate_fetched [where body = "PList
          [PDict [(''cc'', PStr ''USD''), (''rate'', PFloat (Finite 27))]]"])
       (simp_all add: fetched_def serve_def ok_def raise_for_status_def)
  then show ?thesis
    by (simp add: NationalBankProvider_new_def NationalBankProvider_match_def
        NationalBankProvider_value_def round64_27_5)
qed



text \<open>
  C9, as the code has it. For the NationalBank variant the \<open>buy\<close> argument,
  \<open>float(rate)\<close>, is evaluated first and the \<open>sell\<close> argument adds 0.5 to the raw
  \<open>rate\<close> field before its cast. So a matching record whose \<open>rate\<close> is a str never
  gives a pair: when \<open>float\<close> accepts the str the addition raises \<open>TypeError\<close>,
  and when \<open>float\<close> rejects it the first cast has already raised \<open>ValueError\<close>.
\<close>

theorem NationalBankProvider_string_rate_fails:
  "fetched net NationalBankProvider_url (PList (pre @ PDict d # post)) \<and>
   (\<forall>x\<in>set pre. NationalBankProvider_match cf x = Inr False) \<and>
   map_of d ''cc'' = Some (PStr cf) \<and> map_of d ''rate'' = Some (PStr s)
   \<longrightarrow> fst (NationalBankProvider_get_rate net (NationalBankProvider_new cf ct)) =
         (if float (PStr s) = Inl ValueError then Inl ValueError else Inl TypeError)"
proof
  assume h: "fetched net NationalBankProvider_url (PList (pre @ PDict d # post)) \<and>
    (\<forall>x\<in>set pre. NationalBankProvider_match cf x = Inr False) \<and>
    map_of d ''cc'' = Some (PStr cf) \<and> map_of d ''rate'' = Some (PStr s)"
  then have "NationalBankProvider_get_rate net (NationalBankProvider_new cf ct) =
      NationalBankProvider_loop (pre @ PDict d # post) (NationalBankProvider_new cf ct)"
    by (intro NationalBankProvider_get_rate_fetched
          [where body = "PList (pre @ PDict d # post)"]) simp_all
  with h have "fst (NationalBankProvider_get_rate net (NationalBankProvider_new cf ct)) =
      NationalBankProvider_value (PDict d)"
    by (simp add: NationalBankProvider_loop_first_match NationalBankProvider_new_def
        NationalBankProvider_match_PDict)
  moreover from h have "map_of d ''rate'' = Some (PStr s)"
    by blast
  ultimately show "fst (NationalBankProvider_get_rate net (NationalBankProvider_new cf ct)) =
      (if float (PStr s) = Inl ValueError then Inl ValueError else Inl TypeError)"
    by (simp only: NationalBankProvider_value_str)
qed

theorem NationalBankProvider_string_rate_fails_witness:
  "fst (NationalBankProvider_get_rate
          (serve (json_response (PList
             [PDict [(''cc'', PStr ''EUR''), (''rate'', PStr ''30.0'')],
              PDict [(''cc'', PStr ''USD''), (''rate'', PStr ''27.0'')]])))
          (NationalBankProvider_new ''USD'' ''UAH'')) = Inl TypeError"
  using NationalBankProvider_string_rate_fails
    [where net = "serve (json_response (PList
             [PDict [(''cc'', PStr ''EUR''), (''rate'', PStr ''30.0'')],
              PDict [(''cc'', PStr ''USD''), (''rate'', PStr ''27.0'')]]))"
       and pre = "[PDict [(''cc'', PStr ''EUR''), (''rate'', PStr ''30.0'')]]"
       and d = "[(''cc'', PStr ''USD''), (''rate'', PStr ''27.0'')]"
       and post = "[]" and cf = "''USD''" and ct = "''UAH''" and s = "''27.0''", THEN mp]
  by (simp add: NationalBankProvider_match_def parse_float_27)

text \<open>
  C9 as stated fails for a str that \<open>float\<close> rejects, such as a number written with
  a decimal comma: the exception is \<open>ValueError\<close>, not \<open>TypeError\<close>.
\<close>

theorem NationalBankProvider_string_rate_counterexample:
  "fst (NationalBankProvider_get_rate
          (serve (json_response (PList
             [PDict [(''cc'', PStr ''USD''), (''rate'', PStr ''27,5'')]])))
          (NationalBankProvider_new ''USD'' ''UAH'')) = Inl ValueError"
proof -
  have "NationalBankProvider_get_rate
          (serve (json_response (PList
             [PDict [(''cc'', PStr ''USD''), (''rate'', PStr ''27,5'')]])))
          (NationalBankProvider_new ''USD'' ''UAH'') =
      NationalBankProvider_loop [PDict [(''cc'', PStr ''USD''), (''rate'', PStr ''27,5'')]]
        (NationalBankProvider_new ''USD'' ''UAH'')"
    by (rule NationalBankProvider_get_rate_fetched [where body = "PList
          [PDict [(''cc'', PStr ''USD''), (''rate'', PStr ''27,5'')]]"]) simp_all
  then show ?thesis
    by (simp add: NationalBankProvider_new_def NationalBankProvider_match_def
        NationalBankProvider_value_def parse_float_comma)
qed

text \<open>
  C10. \<open>get_rate\<close> never modifies the provider: whatever the network answers, and
  whether the call returns or raises, the object is left with the same
  \<open>currency_from\<close>, \<open>currency_to\<close>, \<open>name\<close> and translation table it had before
  the call. This holds for all four classes.
\<close>

theorem get_rate_leaves_provider_unchanged:
  "snd (MonoProvider_get_rate net m) = m \<and>
   snd (PrivatbankProvider_get_rate net p) = p \<and>
   snd (NationalBankProvider_get_rate net n) = n \<and>
   snd (VKurseProvider_get_rate net v) = v"
  using readonly_MonoProvider_get_rate [of net]
    readonly_PrivatbankProvider_get_rate [of net]
    readonly_NationalBankProvider_get_rate [of net]
    readonly_VKurseProvider_get_rate [of net]
  by (simp add: readonly_def)

end
